theory Spec2Isabelle
  imports Complex_Main
begin

section \<open>JavaScript strings and values used by the safety classifier\<close>

text \<open>
  A JavaScript string is modelled as a \<^typ>\<open>string\<close>; a \<^typ>\<open>char\<close> stands for the
  UTF-16 code unit of the same number, so the model covers the strings whose code units
  are below 256. \<open>String.prototype.split\<close> with a one-character separator always
  returns at least one piece; \<open>String.prototype.trim\<close> removes the white space and the
  line terminators of ECMAScript from both ends (of those, the code units below 256 are
  9 to 13, 32 and 160).
\<close>

fun split :: "char \<Rightarrow> string \<Rightarrow> string list" where
  "split sep [] = [[]]"
| "split sep (c # cs) =
     (if c = sep then [] # split sep cs
      else (case split sep cs of
              [] \<Rightarrow> [[c]]
            | p # ps \<Rightarrow> (c # p) # ps))"

definition is_js_space :: "char \<Rightarrow> bool" where
  "is_js_space c \<longleftrightarrow> of_char c \<in> {9, 10, 11, 12, 13, 32, 160 :: nat}"

definition trim :: "string \<Rightarrow> string" where
  "trim s = rev (dropWhile is_js_space (rev (dropWhile is_js_space s)))"

text \<open>
  What reading a property of the object literal \<open>unsafeContentCategories\<close> can give:
  one of its own fourteen labels, \<open>undefined\<close> for a key that is nowhere on the
  prototype chain, or the member of \<open>Object.prototype\<close> of that name.
\<close>

datatype category = Label string | Undefined | Inherited string

definition unsafeContentCategories :: "(string \<times> string) list" where
  "unsafeContentCategories =
     [(''S1'', ''Violent Crimes''),
      (''S2'', ''Non-Violent Crimes''),
      (''S3'', ''Sex Crimes''),
      (''S4'', ''Child Exploitation''),
      (''S5'', ''Defamation''),
      (''S6'', ''Specialized Advice''),
      (''S7'', ''Privacy''),
      (''S8'', ''Intellectual Property''),
      (''S9'', ''Indiscriminate Weapons''),
      (''S10'', ''Hate''),
      (''S11'', ''Self-Harm''),
      (''S12'', ''Sexual Content''),
      (''S13'', ''Elections''),
      (''S14'', ''Code Interpreter Abuse'')]"

definition object_prototype_members :: "string list" where
  "object_prototype_members =
     [''constructor'', ''__defineGetter__'', ''__defineSetter__'', ''hasOwnProperty'',
      ''__lookupGetter__'', ''__lookupSetter__'', ''isPrototypeOf'',
      ''propertyIsEnumerable'', ''toString'', ''valueOf'', ''__proto__'',
      ''toLocaleString'']"

definition category_of :: "string \<Rightarrow> category" where
  "category_of k =
     (case map_of unsafeContentCategories k of
        Some v \<Rightarrow> Label v
      | None \<Rightarrow> if k \<in> set object_prototype_members then Inherited k else Undefined)"

text \<open>
  \<open>Array.prototype.join\<close> writes \<open>undefined\<close> as the empty string and every other
  element as \<open>String\<close> of it. The members of \<open>Object.prototype\<close> are native functions,
  printed by Node.js as below, except \<open>__proto__\<close>, which reads as the prototype object.
\<close>

definition category_text :: "category \<Rightarrow> string" where
  "category_text c =
     (case c of
        Label v \<Rightarrow> v
      | Undefined \<Rightarrow> ''''
      | Inherited k \<Rightarrow>
          if k = ''__proto__'' then ''[object Object]''
          else ''function '' @ (if k = ''constructor'' then ''Object'' else k)
                 @ ''() { [native code] }'')"

fun join :: "string \<Rightarrow> string list \<Rightarrow> string" where
  "join sep [] = ''''"
| "join sep [x] = x"
| "join sep (x # y # ys) = x @ sep @ join sep (y # ys)"

section \<open>The safety classifier (llama\_guard.ts)\<close>

datatype SafetyAssessment = SAFE | UNSAFE | ERROR

record LlamaGuardOutput =
  safety_assessment :: SafetyAssessment
  unsafe_categories :: "category list"

text \<open>
  \<open>parseLlamaGuardOutput\<close>. Nothing inside the \<open>try\<close> block of the source can throw
  (\<open>split\<close>, \<open>trim\<close> and a property read of an object literal never do), so its
  \<open>catch\<close> branch has no counterpart here.
\<close>

definition parseLlamaGuardOutput :: "string \<Rightarrow> LlamaGuardOutput" where
  "parseLlamaGuardOutput output =
     (if output = ''safe'' then
        \<lparr>safety_assessment = SAFE, unsafe_categories = []\<rparr>
      else
        let parsed = split CHR 0x0A output in
        if length parsed \<noteq> 2 \<or> parsed ! 0 \<noteq> ''unsafe'' then
          \<lparr>safety_assessment = ERROR, unsafe_categories = []\<rparr>
        else
          let categories = split CHR '','' (parsed ! 1);
              readableCategories = map (\<lambda>c. category_of (trim c)) categories
          in \<lparr>safety_assessment = UNSAFE, unsafe_categories = readableCategories\<rparr>)"


section \<open>Messages and the wire schema (schema.ts)\<close>

text \<open>
  The content of a LangChain message is a string or an array whose items are strings or
  objects; of an object the code reads the fields \<open>type\<close> and \<open>text\<close> only.
\<close>

datatype content_item = StringItem string | ObjectItem string "string option"

datatype message_content = Text string | Items "content_item list"

record ToolCall =
  call_name :: string
  call_args :: string
  call_id :: "string option"

text \<open>
  The message classes of the library that the code tells apart with \<open>instanceof\<close>.
  \<open>AIMessageChunk\<close> is not a subclass of \<open>AIMessage\<close>, which is why the code tests
  both. \<open>OtherMessage\<close> stands for any further class, with its constructor name.
\<close>

datatype BaseMessage =
    HumanMessage message_content
  | AIMessage message_content "ToolCall list"
  | AIMessageChunk message_content "ToolCall list"
  | ToolMessage message_content string
  | SystemMessage message_content
  | OtherMessage string message_content

fun content_of :: "BaseMessage \<Rightarrow> message_content" where
  "content_of (HumanMessage c) = c"
| "content_of (AIMessage c tcs) = c"
| "content_of (AIMessageChunk c tcs) = c"
| "content_of (ToolMessage c tid) = c"
| "content_of (SystemMessage c) = c"
| "content_of (OtherMessage n c) = c"

fun constructor_name :: "BaseMessage \<Rightarrow> string" where
  "constructor_name (HumanMessage c) = ''HumanMessage''"
| "constructor_name (AIMessage c tcs) = ''AIMessage''"
| "constructor_name (AIMessageChunk c tcs) = ''AIMessageChunk''"
| "constructor_name (ToolMessage c tid) = ''ToolMessage''"
| "constructor_name (SystemMessage c) = ''SystemMessage''"
| "constructor_name (OtherMessage n c) = n"

datatype error =
    TypeError string
  | Error string
  | ProviderError
  | GraphRecursionError

text \<open>
  \<open>convertMessageContentToString\<close> of schema.ts: the loop pushes every string item and
  the \<open>text\<close> of every object of type \<open>text\<close>; \<open>join("")\<close> writes a missing
  \<open>text\<close> as the empty string.
\<close>

fun text_items :: "content_item list \<Rightarrow> string list" where
  "text_items [] = []"
| "text_items (StringItem s # rest) = s # text_items rest"
| "text_items (ObjectItem ty txt # rest) =
     (if ty = ''text'' then (case txt of None \<Rightarrow> '''' | Some t \<Rightarrow> t) # text_items rest
      else text_items rest)"

fun convertMessageContentToString :: "message_content \<Rightarrow> string" where
  "convertMessageContentToString (Text s) = s"
| "convertMessageContentToString (Items xs) = join '''' (text_items xs)"

datatype message_type = human | ai | tool

text \<open>
  The class \<open>ChatMessage\<close>. The dictionary \<open>original\<close> is \<open>message.toDict()\<close>; the
  model keeps the message it was taken from.
\<close>

record ChatMessage =
  type :: message_type
  content :: string
  tool_calls :: "ToolCall list"
  tool_call_id :: "string option"
  run_id :: "string option"
  original :: BaseMessage

fun fromLangChain :: "BaseMessage \<Rightarrow> error + ChatMessage" where
  "fromLangChain (HumanMessage c) =
     Inr \<lparr>type = human, content = convertMessageContentToString c, tool_calls = [],
          tool_call_id = None, run_id = None, original = HumanMessage c\<rparr>"
| "fromLangChain (AIMessage c tcs) =
     Inr \<lparr>type = ai, content = convertMessageContentToString c, tool_calls = tcs,
          tool_call_id = None, run_id = None, original = AIMessage c tcs\<rparr>"
| "fromLangChain (AIMessageChunk c tcs) =
     Inr \<lparr>type = ai, content = convertMessageContentToString c, tool_calls = tcs,
          tool_call_id = None, run_id = None, original = AIMessageChunk c tcs\<rparr>"
| "fromLangChain (ToolMessage c tid) =
     Inr \<lparr>type = tool, content = convertMessageContentToString c, tool_calls = [],
          tool_call_id = Some tid, run_id = None, original = ToolMessage c tid\<rparr>"
| "fromLangChain m = Inl (Error (''Unsupported message type: '' @ constructor_name m))"

record UserInput =
  message :: string
  model :: "string option"
  thread_id :: "string option"

record StreamInput = UserInput +
  stream_tokens :: bool

section \<open>The classifier object (llama\_guard.ts, continued)\<close>

text \<open>
  The external classifier is a function from the role and the messages to the text of
  its reply, or to nothing when the request fails. (\<open>compilePrompt\<close> builds the prompt
  from the role and the messages alone, so the reply to the prompt is a function of
  those two.) A request made, with what came back, is recorded as a \<open>call\<close>, to count
  the requests of a turn.
\<close>

type_synonym ChatGroq = "string \<Rightarrow> BaseMessage list \<Rightarrow> string option"

record ChatOpenAI =
  modelName :: string
  temperature :: rat
  streaming :: bool

text \<open>What \<open>ChatOpenAI.invoke\<close> resolves to: an assistant message of either class.\<close>

datatype ModelResponse =
    AsMessage message_content "ToolCall list"
  | AsChunk message_content "ToolCall list"

fun response_message :: "ModelResponse \<Rightarrow> BaseMessage" where
  "response_message (AsMessage c tcs) = AIMessage c tcs"
| "response_message (AsChunk c tcs) = AIMessageChunk c tcs"

datatype call =
    ClassifierRequest string "BaseMessage list" "string option"
  | ModelRequest ChatOpenAI "BaseMessage list" "ModelResponse option"
  | ToolRequest ToolCall string

text \<open>
  The class \<open>LlamaGuard\<close> has the one field \<open>model\<close>, null when the environment
  variable \<open>GROQ_API_KEY\<close> is unset or empty.
\<close>

datatype LlamaGuard = LlamaGuard "ChatGroq option"

definition new_LlamaGuard :: "string option \<Rightarrow> ChatGroq \<Rightarrow> LlamaGuard" where
  "new_LlamaGuard GROQ_API_KEY client =
     (if GROQ_API_KEY = None \<or> GROQ_API_KEY = Some '''' then LlamaGuard None
      else LlamaGuard (Some client))"

fun invoke :: "LlamaGuard \<Rightarrow> string \<Rightarrow> BaseMessage list \<Rightarrow> call list \<times> (error + LlamaGuardOutput)" where
  "invoke (LlamaGuard None) role msgs =
     ([], Inr \<lparr>safety_assessment = SAFE, unsafe_categories = []\<rparr>)"
| "invoke (LlamaGuard (Some client)) role msgs =
     (case client role msgs of
        None \<Rightarrow> ([ClassifierRequest role msgs None], Inl ProviderError)
      | Some reply \<Rightarrow>
          ([ClassifierRequest role msgs (Some reply)], Inr (parseLlamaGuardOutput reply)))"

section \<open>The agent graph (research\_assistant.ts)\<close>

definition models :: "string \<rightharpoonup> ChatOpenAI" where
  "models =
     map_of
       [(''gpt-4'', \<lparr>modelName = ''gpt-4'', temperature = 1 / 2, streaming = False\<rparr>),
        (''gpt-3.5-turbo'',
         \<lparr>modelName = ''gpt-3.5-turbo-0125'', temperature = 0, streaming = True\<rparr>)]"

text \<open>
  What the graph reaches outside itself for: the classifier object made at module load,
  the chat-completion provider (the reply of a client, with the tools bound, to a list
  of messages, or nothing when the request fails), the text that running a tool call
  gives, and the system prompt, which holds the date of the module load.
\<close>

record Env =
  llamaGuard :: LlamaGuard
  chat :: "ChatOpenAI \<Rightarrow> BaseMessage list \<Rightarrow> ModelResponse option"
  tool_output :: "ToolCall \<Rightarrow> string"
  instructions :: string

record Config =
  configurable_thread_id :: string
  configurable_model :: string
  config_runId :: string

text \<open>The channels of \<open>GraphAnnotation\<close>; a channel never written is \<open>None\<close>.\<close>

record GraphState =
  messages :: "BaseMessage list"
  safety :: "LlamaGuardOutput option"
  is_last_step :: "bool option"

text \<open>
  What a node returns: the keys it sets. The framework folds the return value into the
  state, \<open>messages\<close> with the reducer \<open>(x, y) => x.concat(y)\<close>, \<open>safety\<close> by
  overwriting.
\<close>

record Update =
  new_messages :: "BaseMessage list option"
  new_safety :: "LlamaGuardOutput option"

definition apply_update :: "GraphState \<Rightarrow> Update \<Rightarrow> GraphState" where
  "apply_update st u =
     st\<lparr>messages :=
          (case new_messages u of None \<Rightarrow> messages st | Some ys \<Rightarrow> messages st @ ys),
        safety :=
          (case new_safety u of None \<Rightarrow> safety st | Some s \<Rightarrow> Some s)\<rparr>"

definition guardInput :: "Env \<Rightarrow> GraphState \<Rightarrow> call list \<times> (error + Update)" where
  "guardInput env state =
     (case invoke (llamaGuard env) ''User'' (messages state) of
        (cs, Inl e) \<Rightarrow> (cs, Inl e)
      | (cs, Inr s) \<Rightarrow> (cs, Inr \<lparr>new_messages = None, new_safety = Some s\<rparr>))"

text \<open>
  \<open>blockUnsafeContent\<close>. The template literal prints \<open>undefined\<close> when the state has
  no \<open>safety\<close> (the optional chain stops there).
\<close>

definition blockUnsafeContent :: "GraphState \<Rightarrow> Update" where
  "blockUnsafeContent state =
     \<lparr>new_messages =
        Some [AIMessage
                (Text (''This conversation was flagged for unsafe content: '' @
                   (case safety state of
                      None \<Rightarrow> ''undefined''
                    | Some s \<Rightarrow> join '', '' (map category_text (unsafe_categories s)))))
                []],
      new_safety = None\<rparr>"

text \<open>
  \<open>modelNode\<close>. The client is read from the registry under the constant key; the
  configuration is handed on to the client's \<open>invoke\<close>, which takes the run's
  callbacks from it and sends none of it to the provider.
\<close>

definition modelNode :: "Env \<Rightarrow> GraphState \<Rightarrow> Config \<Rightarrow> call list \<times> (error + Update)" where
  "modelNode env state config =
     (case models ''gpt-3.5-turbo'' of
        None \<Rightarrow> ([], Inl (TypeError ''Cannot read properties of undefined (reading 'bindTools')''))
      | Some client \<Rightarrow>
          let msgs = SystemMessage (Text (instructions env)) # messages state in
          (case chat env client msgs of
             None \<Rightarrow> ([ModelRequest client msgs None], Inl ProviderError)
           | Some r \<Rightarrow>
               let response = response_message r in
               (case invoke (llamaGuard env) ''Agent'' (messages state @ [response]) of
                  (cs, Inl e) \<Rightarrow> (ModelRequest client msgs (Some r) # cs, Inl e)
                | (cs, Inr safetyOutput) \<Rightarrow>
                    (ModelRequest client msgs (Some r) # cs,
                     if safety_assessment safetyOutput = UNSAFE then
                       Inr \<lparr>new_messages =
                              Some [AIMessage
                                      (Text (''This response was flagged for unsafe content: '' @
                                         join '', ''
                                           (map category_text (unsafe_categories safetyOutput))))
                                      []],
                            new_safety = Some safetyOutput\<rparr>
                     else
                       Inr \<lparr>new_messages = Some [response], new_safety = None\<rparr>))))"

definition guardInputCondition :: "GraphState \<Rightarrow> string" where
  "guardInputCondition state =
     (if (case safety state of None \<Rightarrow> False | Some s \<Rightarrow> safety_assessment s = UNSAFE)
      then ''unsafe'' else ''safe'')"

text \<open>
  \<open>modelCondition\<close>. On an empty list the last message is \<open>undefined\<close>, and building
  the error text reads a property of it, which is a \<open>TypeError\<close> of its own.
\<close>

definition modelCondition :: "GraphState \<Rightarrow> error + string" where
  "modelCondition state =
     (if messages state = [] then
        Inl (TypeError ''Cannot read properties of undefined (reading 'constructor')'')
      else
        (case last (messages state) of
           AIMessage c tcs \<Rightarrow> if length tcs > 0 then Inr ''tools'' else Inr ''done''
         | AIMessageChunk c tcs \<Rightarrow> if length tcs > 0 then Inr ''tools'' else Inr ''done''
         | lastMessage \<Rightarrow>
             Inl (TypeError (''Expected AIMessage or AIMessageChunk, got '' @
                    constructor_name lastMessage))))"

text \<open>
  The prebuilt \<open>ToolNode\<close> of the framework: it refuses a state whose last message is
  not an assistant message, and answers every tool call of that message, in order, with
  one tool message that carries the id of the call (the empty string for a call without
  an id). A tool that fails or is unknown gives an error text as content, so the text
  of a call is total.
\<close>

definition toolNode :: "Env \<Rightarrow> GraphState \<Rightarrow> call list \<times> (error + Update)" where
  "toolNode env state =
     (let answer = (\<lambda>tcs.
        (map (\<lambda>c. ToolRequest c (tool_output env c)) tcs,
         Inr \<lparr>new_messages =
                Some (map (\<lambda>c. ToolMessage (Text (tool_output env c))
                                  (case call_id c of None \<Rightarrow> '''' | Some i \<Rightarrow> i)) tcs),
              new_safety = None\<rparr>))
      in
      if messages state = [] then
        ([], Inl (Error ''ToolNode only accepts AIMessages as input.''))
      else
        (case last (messages state) of
           AIMessage c tcs \<Rightarrow> answer tcs
         | AIMessageChunk c tcs \<Rightarrow> answer tcs
         | _ \<Rightarrow> ([], Inl (Error ''ToolNode only accepts AIMessages as input.''))))"

text \<open>
  The workflow of \<open>createResearchAssistant\<close>: the four nodes by name, and the edges.
  A conditional edge computes a label on the state with the node's update folded in and
  looks the label up in its table.
\<close>

datatype target = Node string | END

definition run_node :: "Env \<Rightarrow> Config \<Rightarrow> string \<Rightarrow> GraphState \<Rightarrow> call list \<times> (error + Update)" where
  "run_node env config name state =
     (if name = ''guard_input'' then guardInput env state
      else if name = ''block_unsafe_content'' then ([], Inr (blockUnsafeContent state))
      else if name = ''model'' then modelNode env state config
      else if name = ''tools'' then toolNode env state
      else ([], Inl (Error (''Unknown node: '' @ name))))"

definition branch :: "(string \<times> target) list \<Rightarrow> string \<Rightarrow> error + target" where
  "branch table label =
     (case map_of table label of
        None \<Rightarrow> Inl (Error (''Branch condition returned unknown destination: '' @ label))
      | Some t \<Rightarrow> Inr t)"

definition next_node :: "string \<Rightarrow> GraphState \<Rightarrow> error + target" where
  "next_node name state =
     (if name = ''guard_input'' then
        branch [(''unsafe'', Node ''block_unsafe_content''), (''safe'', Node ''model'')]
          (guardInputCondition state)
      else if name = ''block_unsafe_content'' then Inr END
      else if name = ''model'' then
        (case modelCondition state of
           Inl e \<Rightarrow> Inl e
         | Inr label \<Rightarrow> branch [(''tools'', Node ''tools''), (''done'', END)] label)
      else if name = ''tools'' then Inr (Node ''model'')
      else Inl (Error (''Unknown node: '' @ name)))"

text \<open>
  Running the compiled graph from a node. The framework runs one node per step and
  gives up with \<open>GraphRecursionError\<close> when the steps its recursion limit admits are
  used up; \<open>limit\<close> is the number of steps still admitted. A step that fails, in the
  node or in its conditional edge, leaves the state as it was before the step. The
  result lists the nodes run, each with the requests it made and what it returned.
\<close>

record NodeRun =
  node :: string
  calls :: "call list"
  returned :: "error + Update"

record RunResult =
  steps :: "NodeRun list"
  final :: GraphState
  failure :: "error option"

fun run :: "nat \<Rightarrow> Env \<Rightarrow> Config \<Rightarrow> string \<Rightarrow> GraphState \<Rightarrow> RunResult" where
  "run 0 env config name state =
     \<lparr>steps = [], final = state, failure = Some GraphRecursionError\<rparr>"
| "run (Suc limit) env config name state =
     (case run_node env config name state of
        (cs, Inl e) \<Rightarrow>
          \<lparr>steps = [\<lparr>node = name, calls = cs, returned = Inl e\<rparr>],
           final = state, failure = Some e\<rparr>
      | (cs, Inr u) \<Rightarrow>
          let step = \<lparr>node = name, calls = cs, returned = Inr u\<rparr>;
              state' = apply_update state u
          in (case next_node name state' of
                Inl e \<Rightarrow> \<lparr>steps = [step], final = state, failure = Some e\<rparr>
              | Inr END \<Rightarrow> \<lparr>steps = [step], final = state', failure = None\<rparr>
              | Inr (Node next) \<Rightarrow>
                  let rest = run limit env config next state'
                  in rest\<lparr>steps := step # steps rest\<rparr>))"

text \<open>
  One turn on a thread: the state of the thread is loaded from the checkpoint store (a
  thread without a checkpoint starts with no channel written), the input is folded in,
  the graph runs from its entry node \<open>guard_input\<close>, and the state reached is what the
  store holds afterwards.
\<close>

type_synonym MemorySaver = "string \<rightharpoonup> GraphState"

definition load :: "MemorySaver \<Rightarrow> string \<Rightarrow> GraphState" where
  "load store thread =
     (case store thread of
        None \<Rightarrow> \<lparr>messages = [], safety = None, is_last_step = None\<rparr>
      | Some state \<Rightarrow> state)"

definition turn :: "nat \<Rightarrow> Env \<Rightarrow> MemorySaver \<Rightarrow> BaseMessage list \<Rightarrow> Config \<Rightarrow> RunResult \<times> MemorySaver" where
  "turn limit env store input config =
     (let state = apply_update (load store (configurable_thread_id config))
                    \<lparr>new_messages = Some input, new_safety = None\<rparr>;
          result = run limit env config ''guard_input'' state
      in (result, store(configurable_thread_id config \<mapsto> final result)))"

section \<open>The service (service.ts)\<close>

text \<open>
  \<open>parseInput\<close>. The two identifiers that \<open>uuidv4()\<close> draws are arguments. The
  operator \<open>||\<close> takes its right side for a missing and for an empty string.
\<close>

definition parseInput :: "'a UserInput_scheme \<Rightarrow> string \<Rightarrow> string \<Rightarrow> (BaseMessage list \<times> Config) \<times> string" where
  "parseInput userInput uuid1 uuid2 =
     (let runId = uuid1;
          threadId = (case thread_id userInput of
                        None \<Rightarrow> uuid2
                      | Some t \<Rightarrow> if t = '''' then uuid2 else t);
          inputMessage = HumanMessage (Text (message userInput))
      in (([inputMessage],
           \<lparr>configurable_thread_id = threadId,
            configurable_model = (case model userInput of
                                    None \<Rightarrow> ''gpt-4''
                                  | Some m \<Rightarrow> if m = '''' then ''gpt-4'' else m),
            config_runId = runId\<rparr>),
          runId))"

fun removeToolCalls :: "message_content \<Rightarrow> message_content" where
  "removeToolCalls (Text s) = Text s"
| "removeToolCalls (Items xs) =
     Items (filter (\<lambda>item. case item of
                             StringItem s \<Rightarrow> True
                           | ObjectItem ty txt \<Rightarrow> ty \<noteq> ''tool'') xs)"

text \<open>
  An event of the framework's \<open>streamEvents\<close>, with the parts of it that the generator
  reads: its name, \<open>metadata.langgraph_node\<close>, \<open>tags\<close>, \<open>data.output\<close> (absent, an
  output without \<open>messages\<close>, or one with) and the content of \<open>data.chunk\<close>.
\<close>

datatype EventOutput = NoOutput | OutputWithoutMessages | OutputMessages "BaseMessage list"

record StreamEvent =
  event :: string
  langgraph_node :: "string option"
  tags :: "string list option"
  data_output :: EventOutput
  data_chunk :: "message_content option"

text \<open>
  What the generator yields, before \<open>JSON.stringify\<close>: a \<open>message\<close> frame, a \<open>token\<close>
  frame, the \<open>error\<close> frame of a message that could not be converted, and the
  sentinel \<open>[DONE]\<close>. \<open>FailureFrame\<close> is the \<open>error\<close> frame that the route writes when
  the generator throws.
\<close>

datatype Frame =
    MessageFrame ChatMessage
  | TokenFrame string
  | ParseErrorFrame error
  | FailureFrame error
  | DONE

text \<open>The inner loop of \<open>messageGenerator\<close>, over the messages of one event.\<close>

fun relay_messages :: "StreamInput \<Rightarrow> string \<Rightarrow> BaseMessage list \<Rightarrow> Frame list" where
  "relay_messages userInput runId [] = []"
| "relay_messages userInput runId (m # newMessages) =
     (case fromLangChain m of
        Inl e \<Rightarrow> ParseErrorFrame e # relay_messages userInput runId newMessages
      | Inr c \<Rightarrow>
          let chatMessage = c\<lparr>run_id := Some runId\<rparr> in
          if type chatMessage = human \<and> content chatMessage = message userInput
          then relay_messages userInput runId newMessages
          else MessageFrame chatMessage # relay_messages userInput runId newMessages)"

text \<open>
  The body of the outer loop, for one event: the frames it yields, and the error if it
  throws (reading \<open>messages\<close> of an absent output, or \<open>content\<close> of an absent chunk).
\<close>

definition relay_event :: "StreamInput \<Rightarrow> string \<Rightarrow> StreamEvent \<Rightarrow> Frame list \<times> error option" where
  "relay_event userInput runId ev =
     (let relayed =
        (if event ev = ''on_chain_end'' \<and>
            (langgraph_node ev = Some ''model'' \<or> langgraph_node ev = Some ''tools'')
         then (case data_output ev of
                 NoOutput \<Rightarrow>
                   Inl (TypeError ''Cannot read properties of undefined (reading 'messages')'')
               | OutputWithoutMessages \<Rightarrow> Inr []
               | OutputMessages newMessages \<Rightarrow>
                   Inr (relay_messages userInput runId newMessages))
         else Inr [])
      in case relayed of
           Inl e \<Rightarrow> ([], Some e)
         | Inr frames \<Rightarrow>
             if event ev = ''on_chat_model_stream'' \<and> stream_tokens userInput \<and>
                \<not> (case tags ev of None \<Rightarrow> False | Some ts \<Rightarrow> ''llama_guard'' \<in> set ts)
             then (case data_chunk ev of
                     None \<Rightarrow>
                       (frames,
                        Some (TypeError ''Cannot read properties of undefined (reading 'content')''))
                   | Some c \<Rightarrow>
                       (case removeToolCalls c of
                          Text s \<Rightarrow>
                            if trim s \<noteq> '''' then (frames @ [TokenFrame s], None)
                            else (frames, None)
                        | Items xs \<Rightarrow> (frames, None)))
             else (frames, None))"

text \<open>
  The outer loop, over the events that the stream delivers; \<open>fail\<close> is the error with
  which the stream ends, if the turn fails. The sentinel is yielded only when the loop
  ends without an error.
\<close>

fun relay_events :: "StreamInput \<Rightarrow> string \<Rightarrow> StreamEvent list \<Rightarrow> error option \<Rightarrow> Frame list \<times> error option" where
  "relay_events userInput runId [] fail =
     (case fail of None \<Rightarrow> ([DONE], None) | Some e \<Rightarrow> ([], Some e))"
| "relay_events userInput runId (ev # evs) fail =
     (case relay_event userInput runId ev of
        (frames, Some e) \<Rightarrow> (frames, Some e)
      | (frames, None) \<Rightarrow>
          let rest = relay_events userInput runId evs fail
          in (frames @ fst rest, snd rest))"

text \<open>
  The events of a turn, as the framework's \<open>streamEvents\<close> (version 2) reports them:
  every node run starts and ends a chain, with the node's name in the metadata and the
  value the node returned as output; a request to a chat model inside the node streams
  its reply (here as one chunk) under the tags of the client, which for the classifier
  are \<open>llama_guard\<close>; the graph as a whole ends a chain with its final state and no
  node in the metadata. A step that fails ends the stream with its error.
\<close>

fun call_events :: "string \<Rightarrow> call \<Rightarrow> StreamEvent list" where
  "call_events name (ClassifierRequest role msgs (Some reply)) =
     [\<lparr>event = ''on_chat_model_stream'', langgraph_node = Some name,
       tags = Some [''llama_guard''], data_output = NoOutput, data_chunk = Some (Text reply)\<rparr>]"
| "call_events name (ModelRequest client msgs (Some r)) =
     [\<lparr>event = ''on_chat_model_stream'', langgraph_node = Some name,
       tags = Some [], data_output = NoOutput,
       data_chunk = Some (content_of (response_message r))\<rparr>]"
| "call_events name c = []"

definition step_events :: "NodeRun \<Rightarrow> StreamEvent list" where
  "step_events s =
     \<lparr>event = ''on_chain_start'', langgraph_node = Some (node s), tags = Some [],
      data_output = NoOutput, data_chunk = None\<rparr>
     # concat (map (call_events (node s)) (calls s))
     @ (case returned s of
          Inl e \<Rightarrow> []
        | Inr u \<Rightarrow>
            [\<lparr>event = ''on_chain_end'', langgraph_node = Some (node s), tags = Some [],
              data_output = (case new_messages u of
                          None \<Rightarrow> OutputWithoutMessages
                        | Some ms \<Rightarrow> OutputMessages ms),
              data_chunk = None\<rparr>])"

definition streamEvents :: "nat \<Rightarrow> Env \<Rightarrow> MemorySaver \<Rightarrow> BaseMessage list \<Rightarrow> Config \<Rightarrow> (StreamEvent list \<times> error option) \<times> MemorySaver" where
  "streamEvents limit env store input config =
     (case turn limit env store input config of
        (result, store') \<Rightarrow>
          ((concat (map step_events (steps result))
            @ (case failure result of
                 Some e \<Rightarrow> []
               | None \<Rightarrow>
                   [\<lparr>event = ''on_chain_end'', langgraph_node = None, tags = Some [],
                     data_output = OutputMessages (messages (final result)), data_chunk = None\<rparr>]),
            failure result),
           store'))"

definition messageGenerator :: "nat \<Rightarrow> Env \<Rightarrow> MemorySaver \<Rightarrow> StreamInput \<Rightarrow> string \<Rightarrow> string \<Rightarrow> (Frame list \<times> error option) \<times> MemorySaver" where
  "messageGenerator limit env store userInput uuid1 uuid2 =
     (case parseInput userInput uuid1 uuid2 of
        ((input, config), runId) \<Rightarrow>
          (case streamEvents limit env store input config of
             ((events, fail), store') \<Rightarrow>
               (relay_events userInput runId events fail, store')))"

text \<open>The route \<open>/stream\<close>: the frames written to the response.\<close>

definition post_stream :: "nat \<Rightarrow> Env \<Rightarrow> MemorySaver \<Rightarrow> StreamInput \<Rightarrow> string \<Rightarrow> string \<Rightarrow> Frame list \<times> MemorySaver" where
  "post_stream limit env store userInput uuid1 uuid2 =
     (case messageGenerator limit env store userInput uuid1 uuid2 of
        ((frames, None), store') \<Rightarrow> (frames, store')
      | ((frames, Some e), store') \<Rightarrow> (frames @ [FailureFrame e], store'))"

text \<open>
  The route \<open>/invoke\<close>: the reply has the type \<open>ai\<close>, the content of the last message
  of the final state as it is, and the run id; an error gives the status 500.
\<close>

record Reply =
  reply_type :: message_type
  reply_content :: message_content
  reply_run_id :: string

definition post_invoke :: "nat \<Rightarrow> Env \<Rightarrow> MemorySaver \<Rightarrow> UserInput \<Rightarrow> string \<Rightarrow> string \<Rightarrow> (error + Reply) \<times> MemorySaver" where
  "post_invoke limit env store userInput uuid1 uuid2 =
     (case parseInput userInput uuid1 uuid2 of
        ((input, config), runId) \<Rightarrow>
          (case turn limit env store input config of
             (result, store') \<Rightarrow>
               ((case failure result of
                   Some e \<Rightarrow> Inl e
                 | None \<Rightarrow>
                     if messages (final result) = [] then
                       Inl (TypeError ''Cannot read properties of undefined (reading 'content')'')
                     else
                       Inr \<lparr>reply_type = ai,
                            reply_content = content_of (last (messages (final result))),
                            reply_run_id = runId\<rparr>),
                store')))"

text \<open>
  The route \<open>/history\<close>. Each message of the thread becomes an object with the two
  keys \<open>type\<close> and \<open>content\<close>. For a thread without a checkpoint the state has no
  \<open>messages\<close>, and \<open>map\<close> of it throws.
\<close>

record HistoryMessage =
  history_type :: message_type
  history_content :: message_content

definition post_history :: "MemorySaver \<Rightarrow> string \<Rightarrow> error + HistoryMessage list" where
  "post_history store thread =
     (case store thread of
        None \<Rightarrow> Inl (TypeError ''Cannot read properties of undefined (reading 'map')'')
      | Some state \<Rightarrow>
          Inr (map (\<lambda>m. \<lparr>history_type = (case m of HumanMessage c \<Rightarrow> human | _ \<Rightarrow> ai),
                         history_content = content_of m\<rparr>)
                 (messages state)))"

text \<open>
  The type of a message as the library has it (\<open>getType()\<close>), for the three kinds of
  message that a turn appends.
\<close>

fun getType :: "BaseMessage \<Rightarrow> message_type option" where
  "getType (HumanMessage c) = Some human"
| "getType (AIMessage c tcs) = Some ai"
| "getType (AIMessageChunk c tcs) = Some ai"
| "getType (ToolMessage c tid) = Some tool"
| "getType m = None"

section \<open>Reading a run, and example environments\<close>

text \<open>The clients that the model requests among some calls went to.\<close>

fun model_clients :: "call list \<Rightarrow> ChatOpenAI list" where
  "model_clients [] = []"
| "model_clients (ModelRequest client msgs r # cs) = client # model_clients cs"
| "model_clients (c # cs) = model_clients cs"

definition all_calls :: "RunResult \<Rightarrow> call list" where
  "all_calls result = concat (map calls (steps result))"

text \<open>
  Three environments to run the definitions in: a classifier that flags what the user
  says under the category S10, one that flags what the agent says, and an agent without
  a classifier whose model asks for the calculator once and then answers.
\<close>

definition flag_user :: ChatGroq where
  "flag_user role msgs =
     (if role = ''User'' then Some (''unsafe'' @ [CHR 0x0A] @ ''S10'') else Some ''safe'')"

definition flag_agent :: ChatGroq where
  "flag_agent role msgs =
     (if role = ''Agent'' then Some (''unsafe'' @ [CHR 0x0A] @ ''S10'') else Some ''safe'')"

definition greeting :: "ChatOpenAI \<Rightarrow> BaseMessage list \<Rightarrow> ModelResponse option" where
  "greeting client msgs = Some (AsChunk (Text ''Hello!'') [])"

definition calculator_call :: ToolCall where
  "calculator_call = \<lparr>call_name = ''calculator'', call_args = ''2+2'', call_id = Some ''call_1''\<rparr>"

definition calculating :: "ChatOpenAI \<Rightarrow> BaseMessage list \<Rightarrow> ModelResponse option" where
  "calculating client msgs =
     (if length msgs < 3 then Some (AsChunk (Text '''') [calculator_call])
      else Some (AsChunk (Text ''2+2 is 4'') []))"

definition env_flag_user :: Env where
  "env_flag_user =
     \<lparr>llamaGuard = new_LlamaGuard (Some ''gsk_key'') flag_user, chat = greeting,
      tool_output = (\<lambda>c. ''4''), instructions = ''You are a helpful research assistant''\<rparr>"

definition env_flag_agent :: Env where
  "env_flag_agent =
     \<lparr>llamaGuard = new_LlamaGuard (Some ''gsk_key'') flag_agent, chat = greeting,
      tool_output = (\<lambda>c. ''4''), instructions = ''You are a helpful research assistant''\<rparr>"

definition env_calculator :: Env where
  "env_calculator =
     \<lparr>llamaGuard = new_LlamaGuard None flag_user, chat = calculating,
      tool_output = (\<lambda>c. ''4''), instructions = ''You are a helpful research assistant''\<rparr>"

definition example_config :: Config where
  "example_config =
     \<lparr>configurable_thread_id = ''thread_1'', configurable_model = ''gpt-4'',
      config_runId = ''run_1''\<rparr>"

definition example_state :: GraphState where
  "example_state =
     \<lparr>messages = [HumanMessage (Text ''What is 2+2?'')], safety = None, is_last_step = None\<rparr>"

definition example_input :: StreamInput where
  "example_input =
     \<lparr>message = ''What is 2+2?'', model = Some ''gpt-4'', thread_id = Some ''thread_1'',
      stream_tokens = True\<rparr>"

text \<open>
  The tool calls that a message requests: those of an assistant message of either
  class; no other message can request any.
\<close>

fun requested_tool_calls :: "BaseMessage \<Rightarrow> ToolCall list option" where
  "requested_tool_calls (AIMessage c tcs) = Some tcs"
| "requested_tool_calls (AIMessageChunk c tcs) = Some tcs"
| "requested_tool_calls m = None"

definition gpt_3_5_turbo :: ChatOpenAI where
  "gpt_3_5_turbo = \<lparr>modelName = ''gpt-3.5-turbo-0125'', temperature = 0, streaming = True\<rparr>"

text \<open>
  An event that ends the node \<open>model\<close> with two human messages, the first of which
  has the text of the request of \<open>example_input\<close>.
\<close>

definition echo_event :: StreamEvent where
  "echo_event =
     \<lparr>event = ''on_chain_end'', langgraph_node = Some ''model'', tags = Some [],
      data_output = OutputMessages [HumanMessage (Text ''What is 2+2?''),
                                    HumanMessage (Text ''And 3+3?'')],
      data_chunk = None\<rparr>"

definition example_request :: UserInput where
  "example_request =
     \<lparr>message = ''What is 2+2?'', model = None, thread_id = Some ''thread_1''\<rparr>"

section \<open>Properties of the response parser\<close>

lemma split_not_Nil: "split sep s \<noteq> []"
  by (induction s) (auto split: list.splits)

lemma split_no_sep: "sep \<notin> set s \<Longrightarrow> split sep s = [s]"
  by (induction s) auto

lemma split_append_sep: "sep \<notin> set a \<Longrightarrow> split sep (a @ sep # b) = a # split sep b"
  by (induction a) (auto split: list.splits)

lemma split_two_lines:
  "CHR 0x0A \<notin> set a \<Longrightarrow> CHR 0x0A \<notin> set b \<Longrightarrow>
   split CHR 0x0A (a @ [CHR 0x0A] @ b) = [a, b]"
  by (simp add: split_append_sep split_no_sep)

lemma taxonomy_entries:
  "length unsafeContentCategories = 14 \<and> distinct (map fst unsafeContentCategories)"
  by (simp add: unsafeContentCategories_def)

lemma map_category_of_labels:
  "list_all2 (\<lambda>c l. map_of unsafeContentCategories (trim c) = Some l) cs labels \<Longrightarrow>
   map (\<lambda>c. category_of (trim c)) cs = map Label labels"
  by (induction rule: list_all2_induct) (simp_all add: category_of_def)

text \<open>
  The three outcomes of the parser, by the shape of the response: SAFE only for the
  response \<open>safe\<close> itself, ERROR when the response has not exactly two lines or its
  first line is not \<open>unsafe\<close>, UNSAFE for every two-line response that starts with
  the line \<open>unsafe\<close>, whatever its second line holds.
\<close>

lemma parse_outcomes:
  "parseLlamaGuardOutput s = \<lparr>safety_assessment = SAFE, unsafe_categories = []\<rparr>
     \<and> s = ''safe''
   \<or> parseLlamaGuardOutput s = \<lparr>safety_assessment = ERROR, unsafe_categories = []\<rparr>
     \<and> s \<noteq> ''safe''
     \<and> (length (split CHR 0x0A s) \<noteq> 2 \<or> hd (split CHR 0x0A s) \<noteq> ''unsafe'')
   \<or> safety_assessment (parseLlamaGuardOutput s) = UNSAFE
     \<and> length (split CHR 0x0A s) = 2 \<and> hd (split CHR 0x0A s) = ''unsafe''"
  using split_not_Nil [of "CHR 0x0A" s]
  by (auto simp: parseLlamaGuardOutput_def Let_def hd_conv_nth)

text \<open>
  C3, as the code has it. The response \<open>safe\<close> parses to SAFE with no categories. A
  response made of the line \<open>unsafe\<close> and one more line of comma-separated codes,
  each of which is, once trimmed, a key of the taxonomy of fourteen entries, parses to
  UNSAFE with the labels of the codes, in the order of the codes.
\<close>

theorem parse_contract:
  assumes "CHR 0x0A \<notin> set line"
    and "list_all2 (\<lambda>c l. map_of unsafeContentCategories (trim c) = Some l)
           (split CHR '','' line) labels"
  shows "parseLlamaGuardOutput ''safe'' =
           \<lparr>safety_assessment = SAFE, unsafe_categories = []\<rparr> \<and>
         parseLlamaGuardOutput (''unsafe'' @ [CHR 0x0A] @ line) =
           \<lparr>safety_assessment = UNSAFE, unsafe_categories = map Label labels\<rparr>"
proof
  show "parseLlamaGuardOutput ''safe'' =
          \<lparr>safety_assessment = SAFE, unsafe_categories = []\<rparr>"
    by (simp add: parseLlamaGuardOutput_def)
  have lines: "split CHR 0x0A (''unsafe'' @ [CHR 0x0A] @ line) = [''unsafe'', line]"
    using assms(1) by (intro split_two_lines) simp_all
  show "parseLlamaGuardOutput (''unsafe'' @ [CHR 0x0A] @ line) =
          \<lparr>safety_assessment = UNSAFE, unsafe_categories = map Label labels\<rparr>"
    unfolding parseLlamaGuardOutput_def Let_def lines
    using map_category_of_labels [OF assms(2)] by simp
qed

theorem parse_contract_witness:
  "CHR 0x0A \<notin> set ''S1, S10'' \<and>
   list_all2 (\<lambda>c l. map_of unsafeContentCategories (trim c) = Some l)
     (split CHR '','' ''S1, S10'') [''Violent Crimes'', ''Hate''] \<and>
   parseLlamaGuardOutput ''safe'' = \<lparr>safety_assessment = SAFE, unsafe_categories = []\<rparr> \<and>
   parseLlamaGuardOutput (''unsafe'' @ [CHR 0x0A] @ ''S1, S10'') =
     \<lparr>safety_assessment = UNSAFE,
      unsafe_categories = [Label ''Violent Crimes'', Label ''Hate'']\<rparr>"
proof -
  have a: "CHR 0x0A \<notin> set ''S1, S10''"
    by simp
  have b: "list_all2 (\<lambda>c l. map_of unsafeContentCategories (trim c) = Some l)
     (split CHR '','' ''S1, S10'') [''Violent Crimes'', ''Hate'']"
    by (simp add: trim_def is_js_space_def unsafeContentCategories_def)
  show ?thesis
    using a b parse_contract [OF a b] by simp
qed

text \<open>
  C3 as the specification words it fails: the response \<open>safe\<close>, a line feed,
  \<open>S1\<close> has the first line \<open>safe\<close> and parses to ERROR, not to SAFE.
\<close>

theorem parse_safe_first_line_counterexample:
  "hd (split CHR 0x0A (''safe'' @ [CHR 0x0A] @ ''S1'')) = ''safe'' \<and>
   parseLlamaGuardOutput (''safe'' @ [CHR 0x0A] @ ''S1'') =
     \<lparr>safety_assessment = ERROR, unsafe_categories = []\<rparr>"
  by (simp add: parseLlamaGuardOutput_def)

text \<open>
  C4: a category code that the taxonomy does not hold should give ERROR with no
  categories. The parser gives UNSAFE with the category \<open>undefined\<close> for the response
  \<open>unsafe\<close>, a line feed, \<open>S99\<close>.
\<close>

theorem parse_unmapped_code:
  "parseLlamaGuardOutput (''unsafe'' @ [CHR 0x0A] @ ''S99'') =
     \<lparr>safety_assessment = UNSAFE, unsafe_categories = [Undefined]\<rparr>"
  by (simp add: parseLlamaGuardOutput_def category_of_def trim_def is_js_space_def
      unsafeContentCategories_def object_prototype_members_def)

theorem parse_unmapped_code_witness:
  "safety_assessment (parseLlamaGuardOutput (''unsafe'' @ [CHR 0x0A] @ ''S99'')) \<noteq> ERROR \<and>
   unsafe_categories (parseLlamaGuardOutput (''unsafe'' @ [CHR 0x0A] @ ''S99'')) \<noteq> []"
  using parse_unmapped_code by simp
section \<open>Evaluating the examples\<close>

lemmas example_defs =
  env_flag_user_def env_flag_agent_def env_calculator_def example_config_def
  example_state_def example_input_def flag_user_def flag_agent_def greeting_def
  calculating_def calculator_call_def new_LlamaGuard_def

lemmas parser_defs =
  parseLlamaGuardOutput_def category_of_def category_text_def trim_def is_js_space_def
  unsafeContentCategories_def object_prototype_members_def

section \<open>Properties of the classifier object\<close>

lemma invoke_unconfigured:
  "key = None \<or> key = Some '''' \<Longrightarrow>
   invoke (new_LlamaGuard key client) role msgs =
     ([], Inr \<lparr>safety_assessment = SAFE, unsafe_categories = []\<rparr>)"
  by (auto simp: new_LlamaGuard_def)

text \<open>
  C7. Without a credential (the variable unset or empty) the classifier object answers
  every call, for any role and any messages, with SAFE and no categories and makes no
  request; in an agent built on it the node \<open>guard_input\<close> therefore returns SAFE
  without a request, and its conditional edge leads to the node \<open>model\<close>.
\<close>

theorem unconfigured_classifier_fails_open:
  assumes "key = None \<or> key = Some ''''"
  shows "invoke (new_LlamaGuard key client) role msgs =
           ([], Inr \<lparr>safety_assessment = SAFE, unsafe_categories = []\<rparr>) \<and>
         (llamaGuard env = new_LlamaGuard key client \<longrightarrow>
            guardInput env state =
              ([], Inr \<lparr>new_messages = None,
                        new_safety = Some \<lparr>safety_assessment = SAFE, unsafe_categories = []\<rparr>\<rparr>) \<and>
            next_node ''guard_input''
              (apply_update state
                 \<lparr>new_messages = None,
                  new_safety = Some \<lparr>safety_assessment = SAFE, unsafe_categories = []\<rparr>\<rparr>) =
              Inr (Node ''model''))"
  using invoke_unconfigured [OF assms]
  by (simp add: guardInput_def next_node_def branch_def guardInputCondition_def
      apply_update_def)

theorem unconfigured_classifier_fails_open_witness:
  "invoke (new_LlamaGuard None flag_user) ''User'' [HumanMessage (Text ''How do I pick a lock?'')] =
     ([], Inr \<lparr>safety_assessment = SAFE, unsafe_categories = []\<rparr>) \<and>
   guardInput env_calculator example_state =
     ([], Inr \<lparr>new_messages = None,
               new_safety = Some \<lparr>safety_assessment = SAFE, unsafe_categories = []\<rparr>\<rparr>) \<and>
   next_node ''guard_input''
     (apply_update example_state
        \<lparr>new_messages = None,
         new_safety = Some \<lparr>safety_assessment = SAFE, unsafe_categories = []\<rparr>\<rparr>) =
     Inr (Node ''model'')"
proof -
  have key: "(None :: string option) = None \<or> (None :: string option) = Some ''''"
    by simp
  have guard: "llamaGuard env_calculator = new_LlamaGuard None flag_user"
    by (simp add: env_calculator_def)
  show ?thesis
    using unconfigured_classifier_fails_open [OF key, of flag_user "''User''"
        "[HumanMessage (Text ''How do I pick a lock?'')]" env_calculator example_state] guard
    by simp
qed

section \<open>Properties of the graph\<close>

subsection \<open>How a run starts\<close>

lemma run_first_step:
  "\<exists>s rest. steps (run (Suc n) env config name state) = s # rest \<and> node s = name"
  by (auto split: prod.splits sum.splits target.splits simp: Let_def)

lemma run_block_unsafe_content:
  "run (Suc n) env config ''block_unsafe_content'' state =
     \<lparr>steps = [\<lparr>node = ''block_unsafe_content'', calls = [],
                returned = Inr (blockUnsafeContent state)\<rparr>],
      final = apply_update state (blockUnsafeContent state), failure = None\<rparr>"
  by (simp add: run_node_def next_node_def)

lemma run_guard_input:
  assumes "guardInput env state = (cs, Inr u)"
  shows "run (Suc n) env config ''guard_input'' state =
     (let rest = run n env config
                   (if guardInputCondition (apply_update state u) = ''unsafe''
                    then ''block_unsafe_content'' else ''model'')
                   (apply_update state u)
      in rest\<lparr>steps := \<lparr>node = ''guard_input'', calls = cs, returned = Inr u\<rparr> # steps rest\<rparr>)"
  using assms
  by (simp add: run_node_def next_node_def branch_def guardInputCondition_def)

lemma guardInput_result:
  "guardInput env state = (cs, Inr u) \<Longrightarrow>
   \<exists>s. u = \<lparr>new_messages = None, new_safety = Some s\<rparr> \<and>
       invoke (llamaGuard env) ''User'' (messages state) = (cs, Inr s)"
  by (auto simp: guardInput_def split: prod.splits sum.splits)

lemma invoke_calls_no_model: "invoke g role msgs = (cs, r) \<Longrightarrow> model_clients cs = []"
  by (cases g; cases "case g of LlamaGuard m \<Rightarrow> m")
     (auto split: option.splits)

lemma run_flagged:
  assumes guard: "guardInput env state =
                    (cs, Inr \<lparr>new_messages = None, new_safety = Some s\<rparr>)"
    and unsafe: "safety_assessment s = UNSAFE"
  shows "run (Suc (Suc n)) env config ''guard_input'' state =
       \<lparr>steps = [\<lparr>node = ''guard_input'', calls = cs,
                  returned = Inr \<lparr>new_messages = None, new_safety = Some s\<rparr>\<rparr>,
                 \<lparr>node = ''block_unsafe_content'', calls = [],
                  returned = Inr (blockUnsafeContent (state\<lparr>safety := Some s\<rparr>))\<rparr>],
        final = apply_update (state\<lparr>safety := Some s\<rparr>)
                  (blockUnsafeContent (state\<lparr>safety := Some s\<rparr>)),
        failure = None\<rparr>"
  unfolding run_guard_input [OF guard]
  by (simp add: run_block_unsafe_content guardInputCondition_def apply_update_def unsafe
      del: run.simps)

subsection \<open>Routing after input screening\<close>

text \<open>
  C1. In a turn in which \<open>guard_input\<close> produces the assessment \<open>s\<close> and the
  recursion limit admits two steps: if \<open>s\<close> is UNSAFE, the nodes run are
  \<open>guard_input\<close> and \<open>block_unsafe_content\<close> and no other, no request goes to a
  model client, the turn ends without an error, and the state persisted for the thread
  has the messages it had, the input, and exactly one block message after them; if
  \<open>s\<close> is anything else, the node \<open>model\<close> is run.
\<close>

theorem guard_input_routing:
  assumes start: "state = apply_update (load store (configurable_thread_id config))
                    \<lparr>new_messages = Some input, new_safety = None\<rparr>"
    and guard: "guardInput env state = (cs, Inr \<lparr>new_messages = None, new_safety = Some s\<rparr>)"
    and limit: "2 \<le> limit"
    and result: "turn limit env store input config = (result, store')"
  shows "(safety_assessment s = UNSAFE \<longrightarrow>
            map node (steps result) = [''guard_input'', ''block_unsafe_content''] \<and>
            model_clients (all_calls result) = [] \<and>
            failure result = None \<and>
            store' (configurable_thread_id config) = Some (final result) \<and>
            messages (final result) =
              messages (load store (configurable_thread_id config)) @ input @
              [AIMessage (Text (''This conversation was flagged for unsafe content: '' @
                 join '', '' (map category_text (unsafe_categories s)))) []]) \<and>
         (safety_assessment s \<noteq> UNSAFE \<longrightarrow>
            (\<exists>r \<in> set (steps result). node r = ''model''))"
proof -
  obtain n where n: "limit = Suc (Suc n)"
    using limit by (metis Suc_le_D numeral_2_eq_2 Suc_le_mono)
  have res: "result = run (Suc (Suc n)) env config ''guard_input'' state"
    and st: "store' = store(configurable_thread_id config \<mapsto> final result)"
    using result start by (auto simp: turn_def Let_def n)
  have no_model: "model_clients cs = []"
    using guardInput_result [OF guard] invoke_calls_no_model by blast
  show ?thesis
  proof (intro conjI impI)
    assume unsafe: "safety_assessment s = UNSAFE"
    have run: "result =
       \<lparr>steps = [\<lparr>node = ''guard_input'', calls = cs,
                  returned = Inr \<lparr>new_messages = None, new_safety = Some s\<rparr>\<rparr>,
                 \<lparr>node = ''block_unsafe_content'', calls = [],
                  returned = Inr (blockUnsafeContent (state\<lparr>safety := Some s\<rparr>))\<rparr>],
        final = apply_update (state\<lparr>safety := Some s\<rparr>)
                  (blockUnsafeContent (state\<lparr>safety := Some s\<rparr>)),
        failure = None\<rparr>"
      unfolding res using guard unsafe by (rule run_flagged)
    show "map node (steps result) = [''guard_input'', ''block_unsafe_content'']"
      by (simp add: run)
    show "model_clients (all_calls result) = []"
      by (simp add: run all_calls_def no_model)
    show "failure result = None"
      by (simp add: run)
    show "store' (configurable_thread_id config) = Some (final result)"
      by (simp add: st)
    show "messages (final result) =
            messages (load store (configurable_thread_id config)) @ input @
            [AIMessage (Text (''This conversation was flagged for unsafe content: '' @
               join '', '' (map category_text (unsafe_categories s)))) []]"
      by (simp add: run start apply_update_def blockUnsafeContent_def)
  next
    assume safe: "safety_assessment s \<noteq> UNSAFE"
    obtain r rest where first:
      "steps (run (Suc n) env config ''model'' (apply_update state \<lparr>new_messages = None, new_safety = Some s\<rparr>)) = r # rest"
      "node r = ''model''"
      using run_first_step by blast
    have "steps result = \<lparr>node = ''guard_input'', calls = cs,
                  returned = Inr \<lparr>new_messages = None, new_safety = Some s\<rparr>\<rparr> # r # rest"
      unfolding res run_guard_input [OF guard]
      using first(1) safe
      by (simp add: guardInputCondition_def apply_update_def Let_def del: run.simps)
    then show "\<exists>r \<in> set (steps result). node r = ''model''"
      using first(2) by auto
  qed
qed


theorem guard_input_routing_witness:
  "guardInput env_flag_user example_state =
     ([ClassifierRequest ''User'' [HumanMessage (Text ''What is 2+2?'')]
         (Some (''unsafe'' @ [CHR 0x0A] @ ''S10''))],
      Inr \<lparr>new_messages = None,
           new_safety = Some \<lparr>safety_assessment = UNSAFE, unsafe_categories = [Label ''Hate'']\<rparr>\<rparr>) \<and>
   map node (steps (fst (turn 25 env_flag_user Map.empty [HumanMessage (Text ''What is 2+2?'')]
                           example_config))) =
     [''guard_input'', ''block_unsafe_content''] \<and>
   model_clients (all_calls (fst (turn 25 env_flag_user Map.empty
                                    [HumanMessage (Text ''What is 2+2?'')] example_config))) = [] \<and>
   messages (final (fst (turn 25 env_flag_user Map.empty [HumanMessage (Text ''What is 2+2?'')]
                           example_config))) =
     [HumanMessage (Text ''What is 2+2?''),
      AIMessage (Text ''This conversation was flagged for unsafe content: Hate'') []] \<and>
   (\<exists>r \<in> set (steps (fst (turn 25 env_calculator Map.empty
                              [HumanMessage (Text ''What is 2+2?'')] example_config))).
      node r = ''model'')"
proof -
  let ?input = "[HumanMessage (Text ''What is 2+2?'')]"
  let ?s = "\<lparr>safety_assessment = UNSAFE, unsafe_categories = [Label ''Hate'']\<rparr>"
  let ?safe = "\<lparr>safety_assessment = SAFE, unsafe_categories = []\<rparr>"
  have start: "example_state =
      apply_update (load Map.empty (configurable_thread_id example_config))
        \<lparr>new_messages = Some ?input, new_safety = None\<rparr>"
    by (simp add: example_state_def load_def apply_update_def)
  have guard: "guardInput env_flag_user example_state =
     ([ClassifierRequest ''User'' ?input (Some (''unsafe'' @ [CHR 0x0A] @ ''S10''))],
      Inr \<lparr>new_messages = None, new_safety = Some ?s\<rparr>)"
    by (simp add: guardInput_def example_defs parser_defs)
  have guard': "guardInput env_calculator example_state =
     ([], Inr \<lparr>new_messages = None, new_safety = Some ?safe\<rparr>)"
    by (simp add: guardInput_def example_defs)
  have limit: "2 \<le> (25::nat)"
    by simp
  have result: "turn 25 env_flag_user Map.empty ?input example_config =
      (fst (turn 25 env_flag_user Map.empty ?input example_config),
       snd (turn 25 env_flag_user Map.empty ?input example_config))"
    by simp
  have result': "turn 25 env_calculator Map.empty ?input example_config =
      (fst (turn 25 env_calculator Map.empty ?input example_config),
       snd (turn 25 env_calculator Map.empty ?input example_config))"
    by simp
  show ?thesis
    using guard guard_input_routing [OF start guard limit result]
      guard_input_routing [OF start guard' limit result']
    by (simp add: category_text_def load_def)
qed

subsection \<open>The Model step on a flagged response\<close>

text \<open>
  C2, as the code has it. When the model answers and the screening of the answer under
  the role \<open>Agent\<close> is UNSAFE, the Model step returns one synthetic assistant message
  and the assessment; the state gains that one message and not the model's answer. Its
  text is \<open>This response was flagged for unsafe content:\<close>, a space, and the category
  names joined with a comma and a space.
\<close>

theorem model_step_blocks_unsafe_response:
  assumes reply: "chat env \<lparr>modelName = ''gpt-3.5-turbo-0125'', temperature = 0, streaming = True\<rparr>
                    (SystemMessage (Text (instructions env)) # messages state) = Some r"
    and screen: "invoke (llamaGuard env) ''Agent'' (messages state @ [response_message r]) =
                   (cs, Inr s)"
    and unsafe: "safety_assessment s = UNSAFE"
  shows "snd (modelNode env state config) =
           Inr \<lparr>new_messages =
                  Some [AIMessage
                          (Text (''This response was flagged for unsafe content: '' @
                             join '', '' (map category_text (unsafe_categories s)))) []],
                new_safety = Some s\<rparr> \<and>
         (\<forall>u. snd (modelNode env state config) = Inr u \<longrightarrow>
              messages (apply_update state u) =
                messages state @
                [AIMessage
                   (Text (''This response was flagged for unsafe content: '' @
                      join '', '' (map category_text (unsafe_categories s)))) []])"
  using assms by (simp add: modelNode_def models_def apply_update_def)

theorem model_step_blocks_unsafe_response_witness:
  "snd (modelNode env_flag_agent example_state example_config) =
     Inr \<lparr>new_messages =
            Some [AIMessage (Text ''This response was flagged for unsafe content: Hate'') []],
          new_safety = Some \<lparr>safety_assessment = UNSAFE, unsafe_categories = [Label ''Hate'']\<rparr>\<rparr> \<and>
   messages (apply_update example_state
      \<lparr>new_messages =
            Some [AIMessage (Text ''This response was flagged for unsafe content: Hate'') []],
          new_safety = Some \<lparr>safety_assessment = UNSAFE, unsafe_categories = [Label ''Hate'']\<rparr>\<rparr>) =
     [HumanMessage (Text ''What is 2+2?''),
      AIMessage (Text ''This response was flagged for unsafe content: Hate'') []]"
proof -
  have reply: "chat env_flag_agent
      \<lparr>modelName = ''gpt-3.5-turbo-0125'', temperature = 0, streaming = True\<rparr>
      (SystemMessage (Text (instructions env_flag_agent)) # messages example_state) =
      Some (AsChunk (Text ''Hello!'') [])"
    by (simp add: example_defs)
  have screen: "invoke (llamaGuard env_flag_agent) ''Agent''
      (messages example_state @ [response_message (AsChunk (Text ''Hello!'') [])]) =
      ([ClassifierRequest ''Agent''
          [HumanMessage (Text ''What is 2+2?''), AIMessageChunk (Text ''Hello!'') []]
          (Some (''unsafe'' @ [CHR 0x0A] @ ''S10''))],
       Inr \<lparr>safety_assessment = UNSAFE, unsafe_categories = [Label ''Hate'']\<rparr>)"
    by (simp add: example_defs parser_defs)
  have unsafe: "safety_assessment \<lparr>safety_assessment = UNSAFE, unsafe_categories = [Label ''Hate'']\<rparr> = UNSAFE"
    by simp
  show ?thesis
    using model_step_blocks_unsafe_response [OF reply screen unsafe, of example_config]
    by (simp add: category_text_def example_state_def)
qed

text \<open>
  C2 as the specification words it fails: the text of the Model step's block message
  is not in the format of \<open>blockUnsafeContent\<close>, which starts with
  \<open>This conversation was flagged\<close>.
\<close>

theorem model_step_block_text_counterexample:
  "snd (modelNode env_flag_agent example_state example_config) =
     Inr \<lparr>new_messages =
            Some [AIMessage (Text ''This response was flagged for unsafe content: Hate'') []],
          new_safety = Some \<lparr>safety_assessment = UNSAFE, unsafe_categories = [Label ''Hate'']\<rparr>\<rparr> \<and>
   ''This response was flagged for unsafe content: Hate'' \<noteq>
   ''This conversation was flagged for unsafe content: '' @ join '', '' [''Hate'']"
  by (simp add: modelNode_def models_def example_defs parser_defs)

subsection \<open>The transition out of the Model step\<close>

lemma invoke_error: "invoke g role msgs = (cs, Inl e) \<Longrightarrow> e = ProviderError"
  by (cases g; cases "case g of LlamaGuard m \<Rightarrow> m") (auto split: option.splits)

lemma modelNode_appends_assistant:
  assumes "modelNode env state config = (cs, Inr u)"
  shows "\<exists>m tcs. new_messages u = Some [m] \<and> requested_tool_calls m = Some tcs"
proof -
  have "\<exists>tcs. requested_tool_calls (response_message r) = Some tcs" for r
    by (cases r) simp_all
  then show ?thesis
    using assms
    by (auto simp: modelNode_def models_def Let_def
        split: option.splits prod.splits sum.splits if_splits)
qed

lemma modelCondition_last:
  "messages state = ms @ [m] \<Longrightarrow>
   modelCondition state =
     (case requested_tool_calls m of
        None \<Rightarrow> Inl (TypeError (''Expected AIMessage or AIMessageChunk, got '' @
                        constructor_name m))
      | Some tcs \<Rightarrow> if tcs = [] then Inr ''done'' else Inr ''tools'')"
  by (cases m) (simp_all add: modelCondition_def)

lemma modelCondition_after_modelNode:
  assumes "modelNode env state config = (cs, Inr u)"
  shows "modelCondition (apply_update state u) = Inr ''tools'' \<or>
         modelCondition (apply_update state u) = Inr ''done''"
proof -
  obtain m tcs where u: "new_messages u = Some [m]" "requested_tool_calls m = Some tcs"
    using modelNode_appends_assistant [OF assms] by blast
  have "messages (apply_update state u) = messages state @ [m]"
    by (simp add: apply_update_def u)
  then show ?thesis
    using modelCondition_last [where state = "apply_update state u" and m = m]
    by (simp add: u)
qed

lemma run_node_error:
  assumes "run_node env config name state = (cs, Inl e)"
  shows "e = ProviderError \<or> (\<exists>t. e = Error t)"
proof -
  have guard: "guardInput env state = (cs, Inl e) \<Longrightarrow> e = ProviderError"
    by (auto simp: guardInput_def split: prod.splits sum.splits dest: invoke_error)
  have model: "modelNode env state config = (cs, Inl e) \<Longrightarrow> e = ProviderError"
    by (auto simp: modelNode_def models_def Let_def
        split: option.splits prod.splits sum.splits if_splits dest: invoke_error)
  have tools: "toolNode env state = (cs, Inl e) \<Longrightarrow> \<exists>t. e = Error t"
    by (auto simp: toolNode_def Let_def split: if_splits BaseMessage.splits)
  show ?thesis
    using assms guard model tools by (auto simp: run_node_def split: if_splits)
qed

lemma next_node_after_run_node:
  assumes "run_node env config name state = (cs, Inr u)"
  shows "\<exists>t. next_node name (apply_update state u) = Inr t"
proof -
  have "name = ''model'' \<Longrightarrow> modelNode env state config = (cs, Inr u)"
    using assms by (simp add: run_node_def)
  then show ?thesis
    using assms modelCondition_after_modelNode [of env state config cs u]
    by (auto simp: run_node_def next_node_def branch_def guardInputCondition_def
        split: if_splits)
qed

lemma run_failure:
  "failure (run limit env config name state) = Some e \<Longrightarrow>
   e = GraphRecursionError \<or> e = ProviderError \<or> (\<exists>t. e = Error t)"
proof (induction limit arbitrary: name state)
  case 0
  then show ?case by simp
next
  case (Suc limit)
  obtain cs r where node: "run_node env config name state = (cs, r)"
    by (cases "run_node env config name state")
  show ?case
  proof (cases r)
    case (Inl e')
    then show ?thesis
      using Suc.prems node run_node_error [of env config name state cs e'] by auto
  next
    case (Inr u)
    obtain t where t: "next_node name (apply_update state u) = Inr t"
      using next_node_after_run_node node Inr by blast
    show ?thesis
    proof (cases t)
      case (Node nxt)
      then show ?thesis
        using Suc.prems node Inr t Suc.IH [of nxt "apply_update state u"]
        by (simp add: Let_def)
    next
      case END
      then show ?thesis
        using Suc.prems node Inr t by simp
    qed
  qed
qed

text \<open>
  C8. On a state whose last message is \<open>m\<close>, \<open>modelCondition\<close> returns \<open>tools\<close>
  exactly when \<open>m\<close> is an assistant message with one or more tool calls, \<open>done\<close>
  exactly when it is an assistant message with none, and throws the type error exactly
  when \<open>m\<close> is not an assistant message. After a Model step that returned, the
  condition returns one of the two labels, and no run of the graph, from any node and
  state and under any limit, fails with a type error.
\<close>

theorem model_condition:
  "(messages state = ms @ [m] \<longrightarrow>
      (modelCondition state = Inr ''tools'' \<longleftrightarrow>
         (\<exists>tcs. requested_tool_calls m = Some tcs \<and> tcs \<noteq> [])) \<and>
      (modelCondition state = Inr ''done'' \<longleftrightarrow> requested_tool_calls m = Some []) \<and>
      (modelCondition state =
         Inl (TypeError (''Expected AIMessage or AIMessageChunk, got '' @ constructor_name m))
       \<longleftrightarrow> requested_tool_calls m = None)) \<and>
   (modelNode env before config = (cs, Inr u) \<longrightarrow>
      modelCondition (apply_update before u) = Inr ''tools'' \<or>
      modelCondition (apply_update before u) = Inr ''done'') \<and>
   (\<forall>t. failure (run limit env config name start) \<noteq> Some (TypeError t))"
proof (intro conjI impI allI)
  assume ms: "messages state = ms @ [m]"
  have eq: "modelCondition state =
     (case requested_tool_calls m of
        None \<Rightarrow> Inl (TypeError (''Expected AIMessage or AIMessageChunk, got '' @
                        constructor_name m))
      | Some tcs \<Rightarrow> if tcs = [] then Inr ''done'' else Inr ''tools'')"
    using ms by (rule modelCondition_last)
  show "modelCondition state = Inr ''tools'' \<longleftrightarrow>
          (\<exists>tcs. requested_tool_calls m = Some tcs \<and> tcs \<noteq> [])"
    by (auto simp: eq split: option.splits)
  show "modelCondition state = Inr ''done'' \<longleftrightarrow> requested_tool_calls m = Some []"
    by (auto simp: eq split: option.splits)
  show "modelCondition state =
          Inl (TypeError (''Expected AIMessage or AIMessageChunk, got '' @ constructor_name m))
        \<longleftrightarrow> requested_tool_calls m = None"
    by (auto simp: eq split: option.splits)
next
  assume "modelNode env before config = (cs, Inr u)"
  then show "modelCondition (apply_update before u) = Inr ''tools'' \<or>
             modelCondition (apply_update before u) = Inr ''done''"
    by (rule modelCondition_after_modelNode)
next
  fix t
  show "failure (run limit env config name start) \<noteq> Some (TypeError t)"
    using run_failure [of limit env config name start "TypeError t"] by auto
qed

theorem model_condition_witness:
  "modelCondition
     \<lparr>messages = [HumanMessage (Text ''What is 2+2?'')] @
                   [AIMessageChunk (Text '''') [calculator_call]],
      safety = None, is_last_step = None\<rparr> = Inr ''tools'' \<and>
   modelCondition
     \<lparr>messages = [HumanMessage (Text ''What is 2+2?'')] @ [AIMessage (Text ''4'') []],
      safety = None, is_last_step = None\<rparr> = Inr ''done'' \<and>
   modelCondition
     \<lparr>messages = [HumanMessage (Text ''What is 2+2?'')] @
                   [ToolMessage (Text ''4'') ''call_1''],
      safety = None, is_last_step = None\<rparr> =
     Inl (TypeError ''Expected AIMessage or AIMessageChunk, got ToolMessage'') \<and>
   modelNode env_calculator example_state example_config =
     ([ModelRequest gpt_3_5_turbo
         [SystemMessage (Text ''You are a helpful research assistant''),
          HumanMessage (Text ''What is 2+2?'')]
         (Some (AsChunk (Text '''') [calculator_call]))],
      Inr \<lparr>new_messages = Some [AIMessageChunk (Text '''') [calculator_call]],
           new_safety = None\<rparr>) \<and>
   modelCondition
     (apply_update example_state
        \<lparr>new_messages = Some [AIMessageChunk (Text '''') [calculator_call]],
         new_safety = None\<rparr>) = Inr ''tools'' \<and>
   failure (run 25 env_calculator example_config ''guard_input'' example_state) \<noteq>
     Some (TypeError ''Expected AIMessage or AIMessageChunk, got ToolMessage'')"
proof -
  let ?human = "HumanMessage (Text ''What is 2+2?'')"
  let ?asks = "AIMessageChunk (Text '''') [calculator_call]"
  have node: "modelNode env_calculator example_state example_config =
     ([ModelRequest gpt_3_5_turbo
         [SystemMessage (Text ''You are a helpful research assistant''), ?human]
         (Some (AsChunk (Text '''') [calculator_call]))],
      Inr \<lparr>new_messages = Some [?asks], new_safety = None\<rparr>)"
    by (simp add: modelNode_def models_def gpt_3_5_turbo_def env_calculator_def
        example_state_def calculating_def new_LlamaGuard_def)
  let ?cs = "[ModelRequest gpt_3_5_turbo
         [SystemMessage (Text ''You are a helpful research assistant''), ?human]
         (Some (AsChunk (Text '''') [calculator_call]))]"
  let ?u = "\<lparr>new_messages = Some [?asks], new_safety = None\<rparr>"
  note at = model_condition [where ms = "[?human]" and env = env_calculator
      and before = example_state and config = example_config and cs = ?cs and u = ?u
      and limit = 25 and name = "''guard_input''" and start = example_state]
  show ?thesis
    using node
      at [where state = "\<lparr>messages = [?human] @ [?asks], safety = None,
            is_last_step = None\<rparr>" and m = ?asks]
      at [where state = "\<lparr>messages = [?human] @ [AIMessage (Text ''4'') []],
            safety = None, is_last_step = None\<rparr>" and m = "AIMessage (Text ''4'') []"]
      at [where state = "\<lparr>messages = [?human] @ [ToolMessage (Text ''4'') ''call_1''],
            safety = None, is_last_step = None\<rparr>"
          and m = "ToolMessage (Text ''4'') ''call_1''"]
    by (simp add: apply_update_def example_state_def modelCondition_def)
qed

subsection \<open>The model client of the Model step\<close>

lemma modelNode_config: "modelNode env state config = modelNode env state config'"
  by (simp add: modelNode_def)

lemma run_node_config: "run_node env config name state = run_node env config' name state"
  using modelNode_config [of env state config config'] by (simp add: run_node_def)

lemma run_config: "run limit env config name state = run limit env config' name state"
proof (induction limit arbitrary: name state)
  case 0
  show ?case by simp
next
  case (Suc limit)
  obtain cs r where node: "run_node env config' name state = (cs, r)"
    by (cases "run_node env config' name state")
  show ?case
  proof (cases r)
    case (Inl e)
    then show ?thesis
      by (simp add: run_node_config [of env config name state config'] node)
  next
    case (Inr u)
    show ?thesis
    proof (cases "next_node name (apply_update state u)")
      case (Inl e)
      then show ?thesis
        by (simp add: run_node_config [of env config name state config'] node Inr)
    next
      case t: (Inr t)
      show ?thesis
      proof (cases t)
        case (Node nxt)
        then show ?thesis
          using Suc.IH [of nxt "apply_update state u"]
          by (simp add: run_node_config [of env config name state config'] node Inr t)
      next
        case END
        then show ?thesis
          by (simp add: run_node_config [of env config name state config'] node Inr t)
      qed
    qed
  qed
qed

lemma model_clients_append: "model_clients (xs @ ys) = model_clients xs @ model_clients ys"
  by (induction xs rule: model_clients.induct) simp_all

lemma model_clients_tools: "model_clients (map (\<lambda>c. ToolRequest c (f c)) tcs) = []"
  by (induction tcs) simp_all

lemma run_node_clients:
  assumes "run_node env config name state = (cs, r)"
  shows "set (model_clients cs) \<subseteq> {gpt_3_5_turbo}"
proof -
  have guard: "guardInput env state = (cs, r) \<Longrightarrow> model_clients cs = []"
    by (auto simp: guardInput_def split: prod.splits sum.splits dest: invoke_calls_no_model)
  have model: "modelNode env state config = (cs, r) \<Longrightarrow>
      set (model_clients cs) \<subseteq> {gpt_3_5_turbo}"
    by (auto simp: modelNode_def models_def gpt_3_5_turbo_def Let_def
        split: option.splits prod.splits sum.splits if_splits dest: invoke_calls_no_model)
  have tools: "toolNode env state = (cs, r) \<Longrightarrow> model_clients cs = []"
    by (auto simp: toolNode_def Let_def model_clients_tools split: if_splits BaseMessage.splits)
  show ?thesis
    using assms guard model tools by (auto simp: run_node_def split: if_splits)
qed

lemma all_calls_step:
  "all_calls (rest\<lparr>steps := \<lparr>node = name, calls = cs, returned = x\<rparr> # steps rest\<rparr>) =
     cs @ all_calls rest"
  by (simp add: all_calls_def)

lemma run_clients:
  "set (model_clients (all_calls (run limit env config name state))) \<subseteq> {gpt_3_5_turbo}"
proof (induction limit arbitrary: name state)
  case 0
  show ?case by (simp add: all_calls_def)
next
  case (Suc limit)
  obtain cs r where node: "run_node env config name state = (cs, r)"
    by (cases "run_node env config name state")
  have cs: "set (model_clients cs) \<subseteq> {gpt_3_5_turbo}"
    using node by (rule run_node_clients)
  show ?case
  proof (cases r)
    case (Inl e)
    then show ?thesis
      using cs by (simp add: node all_calls_def)
  next
    case (Inr u)
    show ?thesis
    proof (cases "next_node name (apply_update state u)")
      case (Inl e)
      then show ?thesis
        using cs by (simp add: node Inr all_calls_def)
    next
      case t: (Inr t)
      show ?thesis
      proof (cases t)
        case (Node nxt)
        then show ?thesis
          using cs Suc.IH [of nxt "apply_update state u"]
          by (simp add: node Inr t Let_def all_calls_step model_clients_append)
      next
        case END
        then show ?thesis
          using cs by (simp add: node Inr t all_calls_def)
      qed
    qed
  qed
qed

lemma relay_messages_model:
  "relay_messages (v\<lparr>model := m\<rparr>) rid ms = relay_messages v rid ms"
  by (induction ms) (simp_all split: sum.splits add: Let_def)

lemma relay_event_model: "relay_event (v\<lparr>model := m\<rparr>) rid ev = relay_event v rid ev"
  unfolding relay_event_def relay_messages_model by simp

lemma relay_events_model:
  "relay_events (v\<lparr>model := m\<rparr>) rid evs fail = relay_events v rid evs fail"
  by (induction evs) (simp_all add: relay_event_model)

lemma turn_config:
  "configurable_thread_id c = configurable_thread_id c' \<Longrightarrow>
   turn limit env store input c = turn limit env store input c'"
  using run_config [of limit env c _ _ c'] by (simp add: turn_def)

lemma modelNode_request:
  "\<exists>cs. fst (modelNode env state config) =
     ModelRequest gpt_3_5_turbo (SystemMessage (Text (instructions env)) # messages state)
       (chat env gpt_3_5_turbo (SystemMessage (Text (instructions env)) # messages state))
     # cs \<and> model_clients cs = []"
  by (auto simp: modelNode_def models_def gpt_3_5_turbo_def Let_def
      split: option.splits prod.splits sum.splits dest: invoke_calls_no_model)

lemma modelNode_clients: "model_clients (fst (modelNode env state config)) = [gpt_3_5_turbo]"
  using modelNode_request [of env state config] by auto

lemma run_model_steps:
  "s \<in> set (steps (run limit env config name state)) \<Longrightarrow> node s = ''model'' \<Longrightarrow>
   model_clients (calls s) = [gpt_3_5_turbo]"
proof (induction limit arbitrary: name state)
  case 0
  then show ?case by simp
next
  case (Suc limit)
  obtain cs r where node: "run_node env config name state = (cs, r)"
    by (cases "run_node env config name state")
  have here: "name = ''model'' \<Longrightarrow> model_clients cs = [gpt_3_5_turbo]"
    using node modelNode_clients [of env state config] by (simp add: run_node_def)
  show ?case
  proof (cases r)
    case (Inl e)
    then show ?thesis
      using Suc.prems here by (auto simp: node)
  next
    case (Inr u)
    show ?thesis
    proof (cases "next_node name (apply_update state u)")
      case (Inl e)
      then show ?thesis
        using Suc.prems here by (auto simp: node Inr)
    next
      case t: (Inr t)
      show ?thesis
      proof (cases t)
        case (Node nxt)
        then show ?thesis
          using Suc.prems here Suc.IH [of nxt "apply_update state u"]
          by (auto simp: node Inr t Let_def)
      next
        case END
        then show ?thesis
          using Suc.prems here by (auto simp: node Inr t)
      qed
    qed
  qed
qed

text \<open>
  C9. Every execution of the Model step makes exactly one request to a model client:
  to the client registered under \<open>gpt-3.5-turbo\<close>, with the system prompt and the
  messages of the state, whatever the configuration holds; so does every \<open>model\<close>
  step of a turn, and no request of a turn goes to another client. Two requests that
  differ only in the field \<open>model\<close> therefore get the same answer from \<open>/invoke\<close>
  and the same frames from \<open>/stream\<close>, and leave the same store.
\<close>

theorem model_selection_has_no_effect:
  "post_invoke limit env store (u\<lparr>model := m\<rparr>) uuid1 uuid2 =
     post_invoke limit env store (u\<lparr>model := m'\<rparr>) uuid1 uuid2 \<and>
   post_stream limit env store (v\<lparr>model := m\<rparr>) uuid1 uuid2 =
     post_stream limit env store (v\<lparr>model := m'\<rparr>) uuid1 uuid2 \<and>
   modelNode env state config = modelNode env state config' \<and>
   set (model_clients (all_calls (fst (turn limit env store input config)))) \<subseteq>
     {\<lparr>modelName = ''gpt-3.5-turbo-0125'', temperature = 0, streaming = True\<rparr>} \<and>
   (\<exists>cs. fst (modelNode env state config) =
      ModelRequest \<lparr>modelName = ''gpt-3.5-turbo-0125'', temperature = 0, streaming = True\<rparr>
        (SystemMessage (Text (instructions env)) # messages state)
        (chat env \<lparr>modelName = ''gpt-3.5-turbo-0125'', temperature = 0, streaming = True\<rparr>
           (SystemMessage (Text (instructions env)) # messages state))
      # cs \<and> model_clients cs = []) \<and>
   model_clients (fst (modelNode env state config)) =
     [\<lparr>modelName = ''gpt-3.5-turbo-0125'', temperature = 0, streaming = True\<rparr>] \<and>
   (\<forall>s \<in> set (steps (fst (turn limit env store input config))).
      node s = ''model'' \<longrightarrow>
      model_clients (calls s) =
        [\<lparr>modelName = ''gpt-3.5-turbo-0125'', temperature = 0, streaming = True\<rparr>])"
proof (intro conjI)
  have same: "turn limit env store i
                \<lparr>configurable_thread_id = t, configurable_model = a, config_runId = r\<rparr> =
              turn limit env store i
                \<lparr>configurable_thread_id = t, configurable_model = b, config_runId = r\<rparr>"
    for i t a b r
    by (rule turn_config) simp
  show "post_invoke limit env store (u\<lparr>model := m\<rparr>) uuid1 uuid2 =
          post_invoke limit env store (u\<lparr>model := m'\<rparr>) uuid1 uuid2"
    by (simp add: post_invoke_def parseInput_def Let_def
        same [where a = "case m of None \<Rightarrow> ''gpt-4'' | Some m \<Rightarrow> if m = '''' then ''gpt-4'' else m"
                and b = "case m' of None \<Rightarrow> ''gpt-4'' | Some m \<Rightarrow> if m = '''' then ''gpt-4'' else m"])
  show "post_stream limit env store (v\<lparr>model := m\<rparr>) uuid1 uuid2 =
          post_stream limit env store (v\<lparr>model := m'\<rparr>) uuid1 uuid2"
    by (simp add: post_stream_def messageGenerator_def streamEvents_def parseInput_def Let_def
        relay_events_model
        same [where a = "case m of None \<Rightarrow> ''gpt-4'' | Some m \<Rightarrow> if m = '''' then ''gpt-4'' else m"
                and b = "case m' of None \<Rightarrow> ''gpt-4'' | Some m \<Rightarrow> if m = '''' then ''gpt-4'' else m"])
  show "modelNode env state config = modelNode env state config'"
    by (rule modelNode_config)
  show "set (model_clients (all_calls (fst (turn limit env store input config)))) \<subseteq>
     {\<lparr>modelName = ''gpt-3.5-turbo-0125'', temperature = 0, streaming = True\<rparr>}"
    using run_clients by (simp add: turn_def Let_def gpt_3_5_turbo_def)
  show "\<exists>cs. fst (modelNode env state config) =
      ModelRequest \<lparr>modelName = ''gpt-3.5-turbo-0125'', temperature = 0, streaming = True\<rparr>
        (SystemMessage (Text (instructions env)) # messages state)
        (chat env \<lparr>modelName = ''gpt-3.5-turbo-0125'', temperature = 0, streaming = True\<rparr>
           (SystemMessage (Text (instructions env)) # messages state))
      # cs \<and> model_clients cs = []"
    using modelNode_request [of env state config] by (simp add: gpt_3_5_turbo_def)
  show "model_clients (fst (modelNode env state config)) =
     [\<lparr>modelName = ''gpt-3.5-turbo-0125'', temperature = 0, streaming = True\<rparr>]"
    using modelNode_clients [of env state config] by (simp add: gpt_3_5_turbo_def)
  show "\<forall>s \<in> set (steps (fst (turn limit env store input config))).
      node s = ''model'' \<longrightarrow>
      model_clients (calls s) =
        [\<lparr>modelName = ''gpt-3.5-turbo-0125'', temperature = 0, streaming = True\<rparr>]"
    using run_model_steps by (simp add: turn_def Let_def gpt_3_5_turbo_def)
qed

theorem model_selection_has_no_effect_witness:
  "post_invoke 25 env_calculator Map.empty
     \<lparr>message = ''What is 2+2?'', model = Some ''gpt-4'', thread_id = Some ''thread_1''\<rparr>
     ''run_1'' ''thread_2'' =
   post_invoke 25 env_calculator Map.empty
     \<lparr>message = ''What is 2+2?'', model = Some ''gpt-3.5-turbo'', thread_id = Some ''thread_1''\<rparr>
     ''run_1'' ''thread_2'' \<and>
   set (model_clients (all_calls (fst (turn 25 env_calculator Map.empty
          [HumanMessage (Text ''What is 2+2?'')] example_config)))) \<subseteq>
     {\<lparr>modelName = ''gpt-3.5-turbo-0125'', temperature = 0, streaming = True\<rparr>} \<and>
   model_clients (fst (modelNode env_calculator example_state example_config)) =
     [\<lparr>modelName = ''gpt-3.5-turbo-0125'', temperature = 0, streaming = True\<rparr>] \<and>
   map node (steps (fst (turn 25 env_calculator Map.empty
          [HumanMessage (Text ''What is 2+2?'')] example_config))) =
     [''guard_input'', ''model'', ''tools'', ''model''] \<and>
   map (\<lambda>s. model_clients (calls s))
     (steps (fst (turn 25 env_calculator Map.empty
          [HumanMessage (Text ''What is 2+2?'')] example_config))) =
     [[], [\<lparr>modelName = ''gpt-3.5-turbo-0125'', temperature = 0, streaming = True\<rparr>], [],
      [\<lparr>modelName = ''gpt-3.5-turbo-0125'', temperature = 0, streaming = True\<rparr>]]"
proof -
  let ?turn = "fst (turn 25 env_calculator Map.empty
          [HumanMessage (Text ''What is 2+2?'')] example_config)"
  have nodes: "map node (steps ?turn) = [''guard_input'', ''model'', ''tools'', ''model'']"
    by code_simp
  have quiet: "model_clients (calls (steps ?turn ! 0)) = []"
    "model_clients (calls (steps ?turn ! 2)) = []"
    by code_simp+
  obtain a b c d where steps: "steps ?turn = [a, b, c, d]"
    and names: "node b = ''model''" "node d = ''model''"
    using nodes by (auto simp: map_eq_Cons_conv)
  note at = model_selection_has_no_effect [where limit = 25 and env = env_calculator
      and store = Map.empty
      and u = "\<lparr>message = ''What is 2+2?'', model = None, thread_id = Some ''thread_1''\<rparr>"
      and m = "Some ''gpt-4''" and m' = "Some ''gpt-3.5-turbo''"
      and ?uuid1.0 = "''run_1''" and ?uuid2.0 = "''thread_2''"
      and input = "[HumanMessage (Text ''What is 2+2?'')]" and config = example_config
      and state = example_state]
  show ?thesis
    using at nodes quiet names by (simp add: steps)
qed

section \<open>Properties of the stream\<close>

subsection \<open>No echo of the request\<close>

lemma relay_messages_no_echo:
  "MessageFrame c \<in> set (relay_messages userInput runId ms) \<Longrightarrow>
   \<not> (type c = human \<and> content c = message userInput)"
  by (induction ms) (auto split: sum.splits if_splits simp: Let_def)

lemma relay_messages_human:
  "HumanMessage c \<in> set ms \<Longrightarrow> convertMessageContentToString c \<noteq> message userInput \<Longrightarrow>
   MessageFrame \<lparr>type = human, content = convertMessageContentToString c, tool_calls = [],
                 tool_call_id = None, run_id = Some runId, original = HumanMessage c\<rparr>
     \<in> set (relay_messages userInput runId ms)"
  by (induction ms) (auto split: sum.splits simp: Let_def)

lemma relay_event_no_echo:
  "MessageFrame c \<in> set (fst (relay_event userInput runId ev)) \<Longrightarrow>
   \<not> (type c = human \<and> content c = message userInput)"
  using relay_messages_no_echo [of c userInput runId]
  by (auto simp: relay_event_def Let_def
      split: if_splits EventOutput.splits option.splits message_content.splits)

lemma relay_events_no_echo:
  "MessageFrame c \<in> set (fst (relay_events userInput runId evs fail)) \<Longrightarrow>
   \<not> (type c = human \<and> content c = message userInput)"
proof (induction evs)
  case Nil
  then show ?case by (simp split: option.splits)
next
  case (Cons ev evs)
  obtain frames r where ev: "relay_event userInput runId ev = (frames, r)"
    by (cases "relay_event userInput runId ev")
  have frames: "MessageFrame c \<in> set frames \<Longrightarrow> ?case"
    using relay_event_no_echo [of c userInput runId ev] by (simp add: ev)
  show ?case
    using Cons frames by (cases r) (auto simp: ev Let_def)
qed

lemma relay_events_frames:
  "\<forall>e \<in> set evs. snd (relay_event userInput runId e) = None \<Longrightarrow> ev \<in> set evs \<Longrightarrow>
   set (fst (relay_event userInput runId ev)) \<subseteq> set (fst (relay_events userInput runId evs fail))"
proof (induction evs)
  case Nil
  then show ?case by simp
next
  case (Cons e evs)
  obtain frames where e: "relay_event userInput runId e = (frames, None)"
    using Cons.prems(1) by (cases "relay_event userInput runId e") auto
  show ?case
    using Cons by (auto simp: e Let_def)
qed

text \<open>
  C10. The generator never yields a \<open>message\<close> frame of type \<open>human\<close> whose content
  is the string \<open>message\<close> of the request. A human message whose content, as a
  string, differs from it is yielded: when it is among the messages of an event that
  ends the node \<open>model\<close> or \<open>tools\<close> and no event makes the generator throw, its
  frame is among the frames.
\<close>

theorem echo_suppression:
  "(\<forall>c. MessageFrame c \<in> set (fst (relay_events userInput runId events fail)) \<longrightarrow>
        \<not> (type c = human \<and> content c = message userInput)) \<and>
   ((\<forall>e \<in> set events. snd (relay_event userInput runId e) = None) \<and>
    ev \<in> set events \<and> event ev = ''on_chain_end'' \<and>
    (langgraph_node ev = Some ''model'' \<or> langgraph_node ev = Some ''tools'') \<and>
    data_output ev = OutputMessages newMessages \<and>
    HumanMessage c \<in> set newMessages \<and>
    convertMessageContentToString c \<noteq> message userInput \<longrightarrow>
    MessageFrame \<lparr>type = human, content = convertMessageContentToString c, tool_calls = [],
                  tool_call_id = None, run_id = Some runId, original = HumanMessage c\<rparr>
      \<in> set (fst (relay_events userInput runId events fail)))"
proof (intro conjI allI impI)
  fix c
  assume "MessageFrame c \<in> set (fst (relay_events userInput runId events fail))"
  then show "\<not> (type c = human \<and> content c = message userInput)"
    by (rule relay_events_no_echo)
next
  let ?frame = "MessageFrame \<lparr>type = human, content = convertMessageContentToString c,
      tool_calls = [], tool_call_id = None, run_id = Some runId, original = HumanMessage c\<rparr>"
  assume a: "(\<forall>e \<in> set events. snd (relay_event userInput runId e) = None) \<and>
    ev \<in> set events \<and> event ev = ''on_chain_end'' \<and>
    (langgraph_node ev = Some ''model'' \<or> langgraph_node ev = Some ''tools'') \<and>
    data_output ev = OutputMessages newMessages \<and>
    HumanMessage c \<in> set newMessages \<and>
    convertMessageContentToString c \<noteq> message userInput"
  then have "?frame \<in> set (relay_messages userInput runId newMessages)"
    using relay_messages_human by blast
  then have "?frame \<in> set (fst (relay_event userInput runId ev))"
    using a by (auto simp: relay_event_def)
  then show "?frame \<in> set (fst (relay_events userInput runId events fail))"
    using a relay_events_frames [of events userInput runId ev fail] by blast
qed

theorem echo_suppression_witness:
  "snd (relay_event example_input ''run_1'' echo_event) = None \<and>
   MessageFrame \<lparr>type = human, content = ''And 3+3?'', tool_calls = [],
                 tool_call_id = None, run_id = Some ''run_1'',
                 original = HumanMessage (Text ''And 3+3?'')\<rparr>
     \<in> set (fst (relay_events example_input ''run_1'' [echo_event] None)) \<and>
   MessageFrame \<lparr>type = human, content = ''What is 2+2?'', tool_calls = [],
                 tool_call_id = None, run_id = Some ''run_1'',
                 original = HumanMessage (Text ''What is 2+2?'')\<rparr>
     \<notin> set (fst (relay_events example_input ''run_1'' [echo_event] None))"
proof -
  have quiet: "snd (relay_event example_input ''run_1'' echo_event) = None"
    by (simp add: relay_event_def echo_event_def example_input_def)
  then have all: "\<forall>e \<in> set [echo_event]. snd (relay_event example_input ''run_1'' e) = None"
    by simp
  note at = echo_suppression [where userInput = example_input and runId = "''run_1''"
      and events = "[echo_event]" and fail = None and ev = echo_event
      and newMessages = "[HumanMessage (Text ''What is 2+2?''), HumanMessage (Text ''And 3+3?'')]"
      and c = "Text ''And 3+3?''"]
  have other: "MessageFrame \<lparr>type = human, content = ''And 3+3?'', tool_calls = [],
                 tool_call_id = None, run_id = Some ''run_1'',
                 original = HumanMessage (Text ''And 3+3?'')\<rparr>
     \<in> set (fst (relay_events example_input ''run_1'' [echo_event] None))"
    using at all by (simp add: echo_event_def example_input_def)
  have echo: "MessageFrame \<lparr>type = human, content = ''What is 2+2?'', tool_calls = [],
                 tool_call_id = None, run_id = Some ''run_1'',
                 original = HumanMessage (Text ''What is 2+2?'')\<rparr>
     \<notin> set (fst (relay_events example_input ''run_1'' [echo_event] None))"
    using at by (auto simp: example_input_def)
  show ?thesis
    using quiet other echo by simp
qed

subsection \<open>A turn whose input is flagged\<close>

lemma invoke_calls:
  "invoke g role msgs = (cs, Inr s) \<Longrightarrow>
   cs = [] \<or> (\<exists>reply. cs = [ClassifierRequest role msgs (Some reply)])"
  by (cases g; cases "case g of LlamaGuard m \<Rightarrow> m") (auto split: option.splits)

lemma relay_events_quiet:
  "\<forall>e \<in> set evs. relay_event userInput runId e = ([], None) \<Longrightarrow>
   relay_events userInput runId evs None = ([DONE], None)"
  by (induction evs) simp_all

lemma flagged_turn_events:
  assumes guard: "guardInput env state =
                    (cs, Inr \<lparr>new_messages = None, new_safety = Some s\<rparr>)"
    and e: "e \<in> set (concat (map step_events
              [\<lparr>node = ''guard_input'', calls = cs,
                returned = Inr \<lparr>new_messages = None, new_safety = Some s\<rparr>\<rparr>,
               \<lparr>node = ''block_unsafe_content'', calls = [], returned = Inr u\<rparr>])
            @ [\<lparr>event = ''on_chain_end'', langgraph_node = None, tags = Some [],
                data_output = OutputMessages ms, data_chunk = None\<rparr>])"
  shows "relay_event userInput runId e = ([], None)"
proof -
  have "cs = [] \<or> (\<exists>reply. cs = [ClassifierRequest ''User'' (messages state) (Some reply)])"
    using guardInput_result [OF guard] invoke_calls by blast
  then show ?thesis
    using e by (auto simp: step_events_def relay_event_def)
qed

text \<open>
  C5. The specification expects, for a streamed turn whose input is flagged UNSAFE, one
  \<open>message\<close> frame with the block message and then the sentinel. The generator
  relays the messages of the nodes \<open>model\<close> and \<open>tools\<close> only, and the block message
  is returned by the node \<open>block_unsafe_content\<close>: the frames of such a turn are the
  sentinel alone, while \<open>/invoke\<close> answers the same request with the block message.
\<close>

theorem flagged_input_stream:
  assumes input: "parseInput userInput uuid1 uuid2 = ((input, config), runId)"
    and start: "state = apply_update (load store (configurable_thread_id config))
                          \<lparr>new_messages = Some input, new_safety = None\<rparr>"
    and guard: "guardInput env state =
                  (cs, Inr \<lparr>new_messages = None, new_safety = Some s\<rparr>)"
    and unsafe: "safety_assessment s = UNSAFE"
    and limit: "2 \<le> limit"
  shows "fst (post_stream limit env store userInput uuid1 uuid2) = [DONE] \<and>
         fst (post_invoke limit env store (UserInput.truncate userInput) uuid1 uuid2) =
           Inr \<lparr>reply_type = ai,
                reply_content =
                  Text (''This conversation was flagged for unsafe content: '' @
                    join '', '' (map category_text (unsafe_categories s))),
                reply_run_id = runId\<rparr>"
proof
  obtain n where n: "limit = Suc (Suc n)"
    using limit by (metis Suc_le_D numeral_2_eq_2 Suc_le_mono)
  let ?result = "\<lparr>steps = [\<lparr>node = ''guard_input'', calls = cs,
                  returned = Inr \<lparr>new_messages = None, new_safety = Some s\<rparr>\<rparr>,
                 \<lparr>node = ''block_unsafe_content'', calls = [],
                  returned = Inr (blockUnsafeContent (state\<lparr>safety := Some s\<rparr>))\<rparr>],
        final = apply_update (state\<lparr>safety := Some s\<rparr>)
                  (blockUnsafeContent (state\<lparr>safety := Some s\<rparr>)),
        failure = None\<rparr>"
  have turn: "fst (turn limit env store input config) = ?result"
    unfolding turn_def Let_def n start [symmetric] fst_conv
    using guard unsafe by (rule run_flagged)
  obtain store' where pair: "turn limit env store input config = (?result, store')"
    using turn by (cases "turn limit env store input config") simp
  have events: "fst (streamEvents limit env store input config) =
     (concat (map step_events (steps ?result))
      @ [\<lparr>event = ''on_chain_end'', langgraph_node = None, tags = Some [],
          data_output = OutputMessages (messages (final ?result)), data_chunk = None\<rparr>],
      None)"
    by (simp add: streamEvents_def pair)
  have "relay_events userInput runId (fst (fst (streamEvents limit env store input config))) None
          = ([DONE], None)"
    unfolding events fst_conv
    by (rule relay_events_quiet) (use flagged_turn_events [OF guard] in simp)
  then have "relay_events userInput runId
      (concat (map step_events (steps ?result))
      @ [\<lparr>event = ''on_chain_end'', langgraph_node = None, tags = Some [],
          data_output = OutputMessages (messages (final ?result)), data_chunk = None\<rparr>]) None
          = ([DONE], None)"
    unfolding events fst_conv .
  then show "fst (post_stream limit env store userInput uuid1 uuid2) = [DONE]"
    by (simp add: post_stream_def messageGenerator_def input streamEvents_def pair)
  have same: "parseInput (UserInput.truncate userInput) uuid1 uuid2 = ((input, config), runId)"
    using input by (auto simp: parseInput_def UserInput.truncate_def)
  show "fst (post_invoke limit env store (UserInput.truncate userInput) uuid1 uuid2) =
           Inr \<lparr>reply_type = ai,
                reply_content =
                  Text (''This conversation was flagged for unsafe content: '' @
                    join '', '' (map category_text (unsafe_categories s))),
                reply_run_id = runId\<rparr>"
    by (simp add: post_invoke_def same pair apply_update_def blockUnsafeContent_def)
qed

theorem flagged_input_stream_witness:
  "fst (post_stream 25 env_flag_user Map.empty example_input ''run_1'' ''thread_2'') = [DONE] \<and>
   fst (post_invoke 25 env_flag_user Map.empty (UserInput.truncate example_input)
          ''run_1'' ''thread_2'') =
     Inr \<lparr>reply_type = ai,
          reply_content = Text ''This conversation was flagged for unsafe content: Hate'',
          reply_run_id = ''run_1''\<rparr>"
proof -
  let ?input = "[HumanMessage (Text ''What is 2+2?'')]"
  let ?s = "\<lparr>safety_assessment = UNSAFE, unsafe_categories = [Label ''Hate'']\<rparr>"
  have input: "parseInput example_input ''run_1'' ''thread_2'' =
      ((?input, example_config), ''run_1'')"
    by (simp add: parseInput_def Let_def example_input_def example_config_def)
  have start: "example_state =
      apply_update (load Map.empty (configurable_thread_id example_config))
        \<lparr>new_messages = Some ?input, new_safety = None\<rparr>"
    by (simp add: example_state_def load_def apply_update_def)
  have guard: "guardInput env_flag_user example_state =
     ([ClassifierRequest ''User'' ?input (Some (''unsafe'' @ [CHR 0x0A] @ ''S10''))],
      Inr \<lparr>new_messages = None, new_safety = Some ?s\<rparr>)"
    by (simp add: guardInput_def example_defs parser_defs)
  have unsafe: "safety_assessment ?s = UNSAFE"
    by simp
  have limit: "2 \<le> (25::nat)"
    by simp
  show ?thesis
    using flagged_input_stream [OF input start guard unsafe limit]
    by (simp add: category_text_def)
qed

section \<open>Properties of the history\<close>

text \<open>
  A human or an assistant message of a thread is read back with its own type and
  content.
\<close>

lemma history_agrees:
  assumes "store thread = Some state" and "i < length (messages state)"
    and "getType (messages state ! i) = Some human \<or> getType (messages state ! i) = Some ai"
  shows "\<exists>h. post_history store thread = Inr h \<and> length h = length (messages state) \<and>
             Some (history_type (h ! i)) = getType (messages state ! i) \<and>
             history_content (h ! i) = content_of (messages state ! i)"
  using assms by (cases "messages state ! i") (auto simp: post_history_def)

text \<open>
  C6. The specification expects every message appended in a turn, a tool message too,
  to be read back through the history with its own type and content. The route tells
  a human message from everything else: a tool message of the thread, whose type is
  \<open>tool\<close>, is read back with the type \<open>ai\<close>, and with its own content.
\<close>

theorem history_of_tool_message:
  assumes "store thread = Some state" and "i < length (messages state)"
    and "messages state ! i = ToolMessage c tid"
  shows "\<exists>h. post_history store thread = Inr h \<and> length h = length (messages state) \<and>
             getType (messages state ! i) = Some tool \<and>
             history_type (h ! i) = ai \<and>
             history_content (h ! i) = c"
  using assms by (simp add: post_history_def)

theorem history_of_tool_message_witness:
  "post_history (snd (post_invoke 25 env_calculator Map.empty example_request
                        ''run_1'' ''thread_2'')) ''thread_1'' =
     Inr [\<lparr>history_type = human, history_content = Text ''What is 2+2?''\<rparr>,
          \<lparr>history_type = ai, history_content = Text ''''\<rparr>,
          \<lparr>history_type = ai, history_content = Text ''4''\<rparr>,
          \<lparr>history_type = ai, history_content = Text ''2+2 is 4''\<rparr>] \<and>
   getType (ToolMessage (Text ''4'') ''call_1'') = Some tool"
proof -
  let ?store = "snd (post_invoke 25 env_calculator Map.empty example_request
                       ''run_1'' ''thread_2'')"
  let ?state = "\<lparr>messages = [HumanMessage (Text ''What is 2+2?''),
                    AIMessageChunk (Text '''') [calculator_call],
                    ToolMessage (Text ''4'') ''call_1'',
                    AIMessageChunk (Text ''2+2 is 4'') []],
        safety = Some \<lparr>safety_assessment = SAFE, unsafe_categories = []\<rparr>,
        is_last_step = None\<rparr>"
  have store: "?store ''thread_1'' = Some ?state"
    by code_simp
  have index: "2 < length (messages ?state)"
    by simp
  have third: "messages ?state ! 2 = ToolMessage (Text ''4'') ''call_1''"
    by simp
  show ?thesis
    using history_of_tool_message [where store = ?store and thread = "''thread_1''",
        OF store index third]
    by (simp add: post_history_def store)
qed

end
